theory Spec2Isabelle
  imports
    Complex_Main
    "HOL-Library.Word"
    "HOL-Library.AList"
    "HOL-Library.Multiset"
    "HOL-Library.Char_ord"
    "HOL-Library.List_Lexorder"
begin

unbundle bit_operations_syntax

section \<open>Python values, errors and the runtime the services rely on\<close>

text \<open>
  The synthesis pipeline of the repository: \<^verbatim>\<open>volcano_client.py\<close> (wire protocol client),
  \<^verbatim>\<open>cache_service.py\<close> (result cache) and \<^verbatim>\<open>tts_service.py\<close> (orchestrator).

  Bytes are 8-bit words, Python's unbounded integers are \<^typ>\<open>int\<close>, a \<^verbatim>\<open>datetime\<close> is its
  number of microseconds since the epoch (\<^verbatim>\<open>datetime\<close> arithmetic is exact on
  microseconds). Floats (the speed, volume and pitch ratios, durations) are only stored,
  compared and passed on by the code modelled here, never computed with, except for
  \<^verbatim>\<open>total_seconds()\<close>; they are carried as rationals.
\<close>

type_synonym byte = "8 word"
type_synonym bytes = "byte list"
type_synonym datetime = int

datatype pyval =
    PNone
  | PStr string
  | PInt int
  | PFloat rat
  | PTime datetime
  | PEnum string string  \<comment> \<open>an \<^verbatim>\<open>Enum\<close> member: its name and its \<^verbatim>\<open>.value\<close>\<close>

text \<open>A Python \<^verbatim>\<open>dict\<close> with string keys: an association list with distinct keys.\<close>

type_synonym pydict = "(string \<times> pyval) list"

text \<open>
  Exceptions as values. \<open>TTSApiError code msg\<close> is the
  \<^verbatim>\<open>Exception(f"TTS API... {code}: {error_msg}")\<close> raised for an error frame;
  \<open>SynthesisFailed e\<close> is the re-raise \<^verbatim>\<open>Exception(f"...: {str(e)}")\<close> of
  \<^verbatim>\<open>synthesize_to_file\<close> and \<^verbatim>\<open>synthesize_text\<close>, whose message embeds the message of \<open>e\<close>.
\<close>

datatype error =
    TTSApiError nat string
  | SynthesisFailed error
  | GzipError
  | UnicodeDecodeError
  | OverflowError
  | ValidationError
  | JSONDecodeError
  | OtherError string

datatype json =
    JStr string
  | JNum rat
  | JObj "(string \<times> json) list"

text \<open>What a single \<^verbatim>\<open>await asyncio.wait_for(websocket.recv(), timeout)\<close> gives.\<close>

datatype recv_event =
    RecvFrame bytes
  | RecvTimeout             \<comment> \<open>\<^verbatim>\<open>asyncio.TimeoutError\<close>\<close>
  | RecvConnectionClosed    \<comment> \<open>\<^verbatim>\<open>websockets.exceptions.ConnectionClosed\<close>\<close>
  | RecvRaises error        \<comment> \<open>any other exception\<close>

text \<open>
  Library functions and external collaborators the code calls, taken as parameters:
  \<^verbatim>\<open>gzip.decompress\<close>, \<^verbatim>\<open>str(b, "utf-8")\<close>, \<^verbatim>\<open>hashlib.md5(..).hexdigest()\<close>, the f-string
  rendering of a value, \<^verbatim>\<open>json.dumps\<close>/\<^verbatim>\<open>json.loads\<close>, the audio probe
  \<^verbatim>\<open>get_audio_duration\<close> (\<^verbatim>\<open>app.utils.audio_utils\<close>), the file system, and the provider at the
  other end of the websocket: for the request object sent, either the connection fails or
  the provider answers with a sequence of receive events.

  \<open>write_file path content\<close> is \<^verbatim>\<open>with open(path, 'wb') as f: f.write(content)\<close>: it
  succeeds, or it raises \<open>e\<close> and leaves the path as it was (\<open>Inl (e, None)\<close>: the \<^verbatim>\<open>open\<close>
  failed) or holding \<open>p\<close> (\<open>Inl (e, Some p)\<close>: the write failed part-way).
\<close>

record runtime =
  gzip_decompress :: "bytes \<Rightarrow> error + bytes"
  utf8_decode :: "bytes \<Rightarrow> error + string"
  md5_hexdigest :: "string \<Rightarrow> string"
  py_format :: "pyval \<Rightarrow> string"
  json_dumps :: "pydict \<Rightarrow> error + string"
  json_loads :: "string \<Rightarrow> error + pydict"
  get_audio_duration :: "(string \<rightharpoonup> bytes) \<Rightarrow> string \<Rightarrow> error + rat"
  write_file :: "string \<Rightarrow> bytes \<Rightarrow> (error \<times> bytes option) + unit"
  provider :: "json \<Rightarrow> error + (nat \<Rightarrow> recv_event)"

section \<open>Frame decoding: \<^verbatim>\<open>VolcanoTTSClient._parse_response\<close>\<close>

definition from_bytes_big :: "bytes \<Rightarrow> nat" where
  "from_bytes_big bs = foldl (\<lambda>acc b. acc * 256 + unat b) 0 bs"

text \<open>\<^verbatim>\<open>int.from_bytes(bs, "big", signed=True)\<close>: two's complement on the bytes given.\<close>

definition from_bytes_big_signed :: "bytes \<Rightarrow> int" where
  "from_bytes_big_signed bs =
     (let n = int (from_bytes_big bs)
      in if bs \<noteq> [] \<and> 2 ^ (8 * length bs - 1) \<le> n then n - 2 ^ (8 * length bs) else n)"

definition parse_response :: "runtime \<Rightarrow> bytes \<Rightarrow> error + (bool \<times> bytes option)" where
  "parse_response rt response =
     (if length response < 4 then Inr (False, None)
      else
        let header_size = (response ! 0) AND 0x0f;
            message_type = drop_bit 4 (response ! 1);
            message_type_specific_flags = (response ! 1) AND 0x0f;
            message_compression = (response ! 2) AND 0x0f;
            header_length = unat header_size * 4;
            payload = drop header_length response
        in
          if message_type = 0xb then
            (if message_type_specific_flags = 0 then Inr (False, None)
             else
               let sequence_number = from_bytes_big_signed (take 4 payload);
                   audio_data = drop 8 payload
               in Inr (sequence_number < 0, Some audio_data))
          else if message_type = 0xf then
            (let code = from_bytes_big (take 4 payload);
                 error_msg = drop 8 payload
             in case (if message_compression = 1 then gzip_decompress rt error_msg
                      else Inr error_msg) of
                  Inl e \<Rightarrow> Inl e
                | Inr raw \<Rightarrow>
                    (case utf8_decode rt raw of
                       Inl e \<Rightarrow> Inl e
                     | Inr msg \<Rightarrow> Inl (TTSApiError code msg)))
          else if message_type = 0xc then
            (case (if message_compression = 1 then gzip_decompress rt (drop 4 payload)
                   else Inr (drop 4 payload)) of
               Inl e \<Rightarrow> Inl e
             | Inr _ \<Rightarrow> Inr (False, None))
          else Inr (False, None))"

section \<open>The receive loop: \<^verbatim>\<open>VolcanoTTSClient._synthesize_stream\<close>\<close>

text \<open>
  The generator's outcome: the chunks it yielded, in order, and the exception it ended
  with, if any (\<open>None\<close>: the generator is exhausted normally). The \<^verbatim>\<open>while True\<close> loop
  need not end (a provider may send no-data frames forever), so the loop is a partial
  function and not returning is the value \<open>None\<close>.
\<close>

type_synonym stream_result = "bytes list \<times> error option"

partial_function (option) recv_loop ::
  "runtime \<Rightarrow> (nat \<Rightarrow> recv_event) \<Rightarrow> nat \<Rightarrow> bytes list \<Rightarrow> stream_result option" where
  "recv_loop rt recv i yielded =
     (case recv i of
        RecvTimeout \<Rightarrow> Some (yielded, None)
      | RecvConnectionClosed \<Rightarrow> Some (yielded, None)
      | RecvRaises e \<Rightarrow> Some (yielded, Some e)
      | RecvFrame response \<Rightarrow>
          (case parse_response rt response of
             Inl e \<Rightarrow> Some (yielded, Some e)
           | Inr (done, audio_chunk) \<Rightarrow>
               let yielded' = (case audio_chunk of
                                 None \<Rightarrow> yielded
                               | Some c \<Rightarrow> if c \<noteq> [] then yielded @ [c] else yielded)
               in if done then Some (yielded', None)
                  else recv_loop rt recv (Suc i) yielded'))"

definition synthesize_stream_internal :: "runtime \<Rightarrow> json \<Rightarrow> stream_result option" where
  "synthesize_stream_internal rt request_json =
     (case provider rt request_json of
        Inl e \<Rightarrow> Some ([], Some e)
      | Inr recv \<Rightarrow> recv_loop rt recv 0 [])"

section \<open>The world the services act on\<close>

text \<open>
  \<^verbatim>\<open>settings\<close> (\<^verbatim>\<open>app/core/config.py\<close>): the two values the pipeline reads.
\<close>

record settings =
  AUDIO_FILES_PATH :: string
  CACHE_EXPIRE_SECONDS :: int

definition default_settings :: settings where
  "default_settings = \<lparr>AUDIO_FILES_PATH = ''./audio_files'', CACHE_EXPIRE_SECONDS = 3600\<rparr>"

text \<open>
  An entry of \<^verbatim>\<open>CacheService.memory_cache\<close>: \<^verbatim>\<open>{"data": value, "expires_at": expires_at}\<close>.
  The value is a Python object, held by reference: \<open>data\<close> is the address of a dict in
  the heap below, so that what a caller does to the object it got from the cache is seen
  by the cache as well.
\<close>

record cache_item =
  data :: nat
  expires_at :: datetime

record cache_stats =
  hits :: nat
  misses :: nat
  sets :: nat
  deletes :: nat

text \<open>
  The Redis client is an external server: each call either raises or answers. (The module
  sets \<^verbatim>\<open>REDIS_AVAILABLE = False\<close>, so \<^verbatim>\<open>initialize\<close> leaves \<^verbatim>\<open>redis_client\<close> at \<^verbatim>\<open>None\<close>; the
  Redis branches of \<^verbatim>\<open>get\<close> and \<^verbatim>\<open>set\<close> are modelled all the same.)
\<close>

record redis_client =
  redis_get :: "string \<Rightarrow> error + string option"
  redis_setex :: "string \<Rightarrow> int \<Rightarrow> string \<Rightarrow> error + unit"
  redis_set :: "string \<Rightarrow> string \<Rightarrow> error + unit"

record CacheService =
  redis :: "redis_client option"
  memory_cache :: "string \<rightharpoonup> cache_item"
  stats :: cache_stats

text \<open>
  The state: the clock (\<open>clock w n\<close> is what the \<open>n\<close>-th call of \<^verbatim>\<open>datetime.utcnow()\<close>
  returns, \<open>ticks\<close> counts the calls made), the source of \<^verbatim>\<open>uuid.uuid4()\<close> values, the heap
  of dict objects, the cache service, the files on disk, and the number of times the
  protocol client has started a websocket session (\<^verbatim>\<open>_synthesize_stream\<close>).
\<close>

record world =
  clock :: "nat \<Rightarrow> datetime"
  ticks :: nat
  uuid_source :: "nat \<Rightarrow> string"
  uuid_count :: nat
  heap :: "nat \<rightharpoonup> pydict"
  heap_next :: nat
  cache_service :: CacheService
  files :: "string \<rightharpoonup> bytes"
  ws_sessions :: nat

definition utcnow :: "world \<Rightarrow> datetime \<times> world" where
  "utcnow w = (clock w (ticks w), w\<lparr>ticks := Suc (ticks w)\<rparr>)"

definition uuid4 :: "world \<Rightarrow> string \<times> world" where
  "uuid4 w = (uuid_source w (uuid_count w), w\<lparr>uuid_count := Suc (uuid_count w)\<rparr>)"

text \<open>
  A new dict object; its address is its identity. Every address the code holds comes from
  \<open>new_dict\<close>; \<open>deref\<close> of any other address is the empty dict.
\<close>

definition new_dict :: "pydict \<Rightarrow> world \<Rightarrow> nat \<times> world" where
  "new_dict d w = (heap_next w, w\<lparr>heap := (heap w)(heap_next w \<mapsto> d), heap_next := Suc (heap_next w)\<rparr>)"

definition deref :: "world \<Rightarrow> nat \<Rightarrow> pydict" where
  "deref w a = (case heap w a of None \<Rightarrow> [] | Some d \<Rightarrow> d)"

text \<open>\<^verbatim>\<open>obj[k] = v\<close> on the dict at address \<open>a\<close>.\<close>

definition setitem :: "nat \<Rightarrow> string \<Rightarrow> pyval \<Rightarrow> world \<Rightarrow> world" where
  "setitem a k v w = w\<lparr>heap := (heap w)(a \<mapsto> AList.update k v (deref w a))\<rparr>"

definition dict_get :: "pydict \<Rightarrow> string \<Rightarrow> pyval \<Rightarrow> pyval" where
  "dict_get d k dflt = (case map_of d k of None \<Rightarrow> dflt | Some v \<Rightarrow> v)"

text \<open>
  An f-string field \<^verbatim>\<open>{v}\<close>: a \<^verbatim>\<open>str\<close> is itself, anything else is rendered by Python.
  \<^verbatim>\<open>x.value if hasattr(x, 'value') else str(x)\<close> takes the value of an enum member.
\<close>

definition fstr :: "runtime \<Rightarrow> pyval \<Rightarrow> string" where
  "fstr rt v = (case v of PStr s \<Rightarrow> s | _ \<Rightarrow> py_format rt v)"

definition value_or_str :: "runtime \<Rightarrow> pyval \<Rightarrow> string" where
  "value_or_str rt v = (case v of PEnum _ val \<Rightarrow> val | _ \<Rightarrow> fstr rt v)"

text \<open>\<^verbatim>\<open>os.path.join(a, b)\<close> on POSIX.\<close>

definition os_path_join :: "string \<Rightarrow> string \<Rightarrow> string" where
  "os_path_join a b =
     (case b of
        c # _ \<Rightarrow> if c = CHR ''/'' then b
                 else if a = [] then b
                 else if last a = CHR ''/'' then a @ b else a @ ''/'' @ b
      | [] \<Rightarrow> if a = [] then [] else if last a = CHR ''/'' then a else a @ ''/'')"

section \<open>The protocol client: \<^verbatim>\<open>VolcanoTTSClient\<close>\<close>

record VolcanoTTSClient =
  app_id :: string
  access_token :: string
  cluster :: string
  emotion_voices :: "string list"

definition get_default_emotion_voices :: "string list" where
  "get_default_emotion_voices =
     [''zh_male_beijingxiaoye_emo_v2_mars_bigtts'',
      ''zh_female_roumeinvyou_emo_v2_mars_bigtts'',
      ''zh_male_yangguangqingnian_emo_v2_mars_bigtts'',
      ''zh_female_meilinvyou_emo_v2_mars_bigtts'',
      ''zh_female_shuangkuaisisi_emo_v2_mars_bigtts'']"

text \<open>
  \<^verbatim>\<open>_load_emotion_voices\<close>: the argument is what reading \<^verbatim>\<open>voice_presets_complete.json\<close>
  gives: \<open>Inl\<close> when the file is not found or reading it raises, otherwise the list under
  \<^verbatim>\<open>emotion_config.emotion_voices\<close> (empty when a key is missing).
\<close>

definition load_emotion_voices :: "error + string list \<Rightarrow> string list" where
  "load_emotion_voices config =
     (case config of
        Inl _ \<Rightarrow> get_default_emotion_voices
      | Inr vs \<Rightarrow> if vs \<noteq> [] then vs else get_default_emotion_voices)"

definition supports_emotion :: "VolcanoTTSClient \<Rightarrow> string \<Rightarrow> bool" where
  "supports_emotion self voice_type = (voice_type \<in> set (emotion_voices self))"

text \<open>\<^verbatim>\<open>if emotion\<close>: neither \<^verbatim>\<open>None\<close> nor the empty string.\<close>

definition truthy_str :: "string option \<Rightarrow> bool" where
  "truthy_str s = (case s of None \<Rightarrow> False | Some x \<Rightarrow> x \<noteq> [])"

text \<open>
  The request object that \<^verbatim>\<open>synthesize_to_file\<close> and \<^verbatim>\<open>synthesize_stream\<close> both build:
  the dict literal, then \<^verbatim>\<open>request_json["request"]["emotion"] = emotion\<close> under the guard.
\<close>

definition build_request_json ::
  "runtime \<Rightarrow> VolcanoTTSClient \<Rightarrow> string \<Rightarrow> string \<Rightarrow> string \<Rightarrow> string \<Rightarrow> rat \<Rightarrow> rat \<Rightarrow> rat \<Rightarrow>
   pyval \<Rightarrow> string option \<Rightarrow> json" where
  "build_request_json rt self uid reqid text voice_type speed_ratio volume_ratio pitch_ratio
     encoding emotion =
     JObj [
       (''app'', JObj [(''appid'', JStr (app_id self)),
                       (''token'', JStr (access_token self)),
                       (''cluster'', JStr (cluster self))]),
       (''user'', JObj [(''uid'', JStr uid)]),
       (''audio'', JObj [(''voice_type'', JStr voice_type),
                         (''encoding'', JStr (value_or_str rt encoding)),
                         (''speed_ratio'', JNum speed_ratio),
                         (''volume_ratio'', JNum volume_ratio),
                         (''pitch_ratio'', JNum pitch_ratio)]),
       (''request'', JObj ([(''reqid'', JStr reqid),
                            (''text'', JStr text),
                            (''text_type'', JStr ''plain''),
                            (''operation'', JStr ''submit'')]
                           @ (if truthy_str emotion \<and> supports_emotion self voice_type
                              then [(''emotion'', JStr (case emotion of Some e \<Rightarrow> e | None \<Rightarrow> []))]
                              else [])))]"

definition json_get :: "json \<Rightarrow> string \<Rightarrow> json option" where
  "json_get j k = (case j of JObj kvs \<Rightarrow> map_of kvs k | _ \<Rightarrow> None)"

text \<open>\<^verbatim>\<open>request_json["request"].get("emotion")\<close>.\<close>

definition request_emotion :: "json \<Rightarrow> json option" where
  "request_emotion request_json =
     (case json_get request_json ''request'' of None \<Rightarrow> None | Some r \<Rightarrow> json_get r ''emotion'')"

text \<open>The dict \<^verbatim>\<open>synthesize_to_file\<close> returns.\<close>

record synthesis_result =
  res_request_id :: string
  res_file_path :: string
  res_file_size :: int
  res_synthesis_time :: rat
  res_created_at :: datetime
  res_status :: string

text \<open>\<^verbatim>\<open>(end_time - start_time).total_seconds()\<close>.\<close>

definition total_seconds :: "datetime \<Rightarrow> datetime \<Rightarrow> rat" where
  "total_seconds end_time start_time = of_int (end_time - start_time) / 1000000"

text \<open>
  \<^verbatim>\<open>synthesize_to_file\<close>. The request id and the user id are drawn first, the start time is
  read inside the \<^verbatim>\<open>try\<close>, the stream is consumed to its end into \<^verbatim>\<open>audio_data\<close>, and only
  then is the file written; any exception of the stream is re-raised wrapped, before the
  \<^verbatim>\<open>open\<close>, and so is an exception of the \<^verbatim>\<open>open\<close> or of the write (the \<^verbatim>\<open>except\<close> covers
  the whole body).
\<close>

definition synthesize_to_file ::
  "runtime \<Rightarrow> VolcanoTTSClient \<Rightarrow> string \<Rightarrow> string \<Rightarrow> string \<Rightarrow> rat \<Rightarrow> rat \<Rightarrow> rat \<Rightarrow> pyval \<Rightarrow>
   string option \<Rightarrow> world \<Rightarrow> ((error + synthesis_result) \<times> world) option" where
  "synthesize_to_file rt self text voice_type output_path speed_ratio volume_ratio pitch_ratio
     encoding emotion w =
     (let (request_id, w1) = uuid4 w;
          (uid, w2) = uuid4 w1;
          request_json = build_request_json rt self uid request_id text voice_type speed_ratio
                           volume_ratio pitch_ratio encoding emotion;
          (start_time, w3) = utcnow w2;
          w4 = w3\<lparr>ws_sessions := Suc (ws_sessions w3)\<rparr>
      in case synthesize_stream_internal rt request_json of
           None \<Rightarrow> None
         | Some (chunks, Some e) \<Rightarrow> Some (Inl (SynthesisFailed e), w4)
         | Some (chunks, None) \<Rightarrow>
             let audio_data = concat chunks
             in (case write_file rt output_path audio_data of
                   Inl (e, left) \<Rightarrow>
                     Some (Inl (SynthesisFailed e),
                           w4\<lparr>files := (case left of
                                          None \<Rightarrow> files w4
                                        | Some p \<Rightarrow> (files w4)(output_path \<mapsto> p))\<rparr>)
                 | Inr _ \<Rightarrow>
                     let w5 = w4\<lparr>files := (files w4)(output_path \<mapsto> audio_data)\<rparr>;
                         (end_time, w6) = utcnow w5
                     in Some (Inr \<lparr>res_request_id = request_id,
                                    res_file_path = output_path,
                                    res_file_size = int (length audio_data),
                                    res_synthesis_time = total_seconds end_time start_time,
                                    res_created_at = start_time,
                                    res_status = ''success''\<rparr>, w6)))"

text \<open>
  The public \<^verbatim>\<open>synthesize_stream\<close>: the same request object (two fresh uuids, the user id
  first here), every chunk forwarded.
\<close>

definition synthesize_stream ::
  "runtime \<Rightarrow> VolcanoTTSClient \<Rightarrow> string \<Rightarrow> string \<Rightarrow> rat \<Rightarrow> rat \<Rightarrow> rat \<Rightarrow> pyval \<Rightarrow>
   string option \<Rightarrow> world \<Rightarrow> (stream_result \<times> world) option" where
  "synthesize_stream rt self text voice_type speed_ratio volume_ratio pitch_ratio encoding
     emotion w =
     (let (uid, w1) = uuid4 w;
          (reqid, w2) = uuid4 w1;
          request_json = build_request_json rt self uid reqid text voice_type speed_ratio
                           volume_ratio pitch_ratio encoding emotion;
          w3 = w2\<lparr>ws_sessions := Suc (ws_sessions w2)\<rparr>
      in case synthesize_stream_internal rt request_json of
           None \<Rightarrow> None
         | Some r \<Rightarrow> Some (r, w3))"

section \<open>The result cache: \<^verbatim>\<open>CacheService\<close>\<close>

text \<open>
  \<^verbatim>\<open>timedelta(seconds=n)\<close> raises \<^verbatim>\<open>OverflowError\<close> beyond 999999999 days, and adding it to a
  \<^verbatim>\<open>datetime\<close> raises when the result leaves the years 1 to 9999.
\<close>

definition timedelta_seconds :: "int \<Rightarrow> error + int" where
  "timedelta_seconds n =
     (if n div 86400 < - 999999999 then Inl OverflowError
      else if 999999999 < n div 86400 then Inl OverflowError
      else Inr (n * 1000000))"

definition datetime_min :: datetime where
  "datetime_min = - 62135596800000000"

definition datetime_max :: datetime where
  "datetime_max = 253402300799999999"

definition datetime_add :: "datetime \<Rightarrow> int \<Rightarrow> error + datetime" where
  "datetime_add t delta =
     (if t + delta < datetime_min then Inl OverflowError
      else if datetime_max < t + delta then Inl OverflowError
      else Inr (t + delta))"

definition count_hit :: "world \<Rightarrow> world" where
  "count_hit w =
     w\<lparr>cache_service := (cache_service w)
         \<lparr>stats := (stats (cache_service w))\<lparr>hits := Suc (hits (stats (cache_service w)))\<rparr>\<rparr>\<rparr>"

definition count_miss :: "world \<Rightarrow> world" where
  "count_miss w =
     w\<lparr>cache_service := (cache_service w)
         \<lparr>stats := (stats (cache_service w))\<lparr>misses := Suc (misses (stats (cache_service w)))\<rparr>\<rparr>\<rparr>"

definition count_set :: "world \<Rightarrow> world" where
  "count_set w =
     w\<lparr>cache_service := (cache_service w)
         \<lparr>stats := (stats (cache_service w))\<lparr>sets := Suc (sets (stats (cache_service w)))\<rparr>\<rparr>\<rparr>"

definition set_memory_cache :: "(string \<rightharpoonup> cache_item) \<Rightarrow> world \<Rightarrow> world" where
  "set_memory_cache m w = w\<lparr>cache_service := (cache_service w)\<lparr>memory_cache := m\<rparr>\<rparr>"

text \<open>
  The body of the \<^verbatim>\<open>try\<close> of \<^verbatim>\<open>CacheService.get\<close>: \<open>Inl\<close> when it raises. With Redis, the
  hit is counted before \<^verbatim>\<open>json.loads\<close> runs, and the loaded value is a new object. In
  memory, the clock is read only when the key is present (\<^verbatim>\<open>cache_item and ...\<close>), the value
  returned is the stored object itself, and an entry that is present but not
  \<^verbatim>\<open>expires_at > now\<close> is deleted.
\<close>

definition get_body :: "runtime \<Rightarrow> string \<Rightarrow> world \<Rightarrow> (error + nat option) \<times> world" where
  "get_body rt key w =
     (case redis (cache_service w) of
        Some r \<Rightarrow>
          (case redis_get r key of
             Inl e \<Rightarrow> (Inl e, w)
           | Inr None \<Rightarrow> (Inr None, count_miss w)
           | Inr (Some cached_data) \<Rightarrow>
               if cached_data \<noteq> [] then
                 (case json_loads rt cached_data of
                    Inl e \<Rightarrow> (Inl e, count_hit w)
                  | Inr d \<Rightarrow> (let (a, w1) = new_dict d (count_hit w) in (Inr (Some a), w1)))
               else (Inr None, count_miss w))
      | None \<Rightarrow>
          (case memory_cache (cache_service w) key of
             None \<Rightarrow> (Inr None, count_miss w)
           | Some cache_item \<Rightarrow>
               let (now, w1) = utcnow w
               in if now < expires_at cache_item then (Inr (Some (data cache_item)), count_hit w1)
                  else (Inr None,
                        count_miss (set_memory_cache
                                      ((memory_cache (cache_service w1))(key := None)) w1))))"

text \<open>\<^verbatim>\<open>CacheService.get\<close>: the \<^verbatim>\<open>except\<close> counts a miss and returns \<^verbatim>\<open>None\<close>.\<close>

definition CacheService_get :: "runtime \<Rightarrow> string \<Rightarrow> world \<Rightarrow> nat option \<times> world" where
  "CacheService_get rt key w =
     (case get_body rt key w of
        (Inl e, w1) \<Rightarrow> (None, count_miss w1)
      | (Inr r, w1) \<Rightarrow> (r, w1))"

text \<open>\<^verbatim>\<open>_cleanup_expired_memory_cache\<close>: every entry with \<^verbatim>\<open>expires_at <= now\<close> is deleted.\<close>

definition cleanup_expired_memory_cache :: "world \<Rightarrow> world" where
  "cleanup_expired_memory_cache w =
     (let (now, w1) = utcnow w
      in set_memory_cache
           (\<lambda>key. case memory_cache (cache_service w1) key of
                     None \<Rightarrow> None
                   | Some item \<Rightarrow> if expires_at item \<le> now then None else Some item) w1)"

text \<open>\<^verbatim>\<open>expire or settings.CACHE_EXPIRE_SECONDS\<close>: \<^verbatim>\<open>None\<close> and \<^verbatim>\<open>0\<close> give the default.\<close>

definition expire_or_default :: "settings \<Rightarrow> int option \<Rightarrow> int" where
  "expire_or_default st expire =
     (case expire of
        None \<Rightarrow> CACHE_EXPIRE_SECONDS st
      | Some n \<Rightarrow> if n = 0 then CACHE_EXPIRE_SECONDS st else n)"

text \<open>
  The body of the \<^verbatim>\<open>try\<close> of \<^verbatim>\<open>CacheService.set\<close>. In memory: the expiry is computed (this
  may overflow), the entry replaces any earlier one, the table is swept, the set is
  counted.
\<close>

definition set_body ::
  "runtime \<Rightarrow> settings \<Rightarrow> string \<Rightarrow> nat \<Rightarrow> int option \<Rightarrow> world \<Rightarrow> (error + unit) \<times> world" where
  "set_body rt st key val expire w =
     (case redis (cache_service w) of
        Some r \<Rightarrow>
          (case json_dumps rt (deref w val) of
             Inl e \<Rightarrow> (Inl e, w)
           | Inr cached_data \<Rightarrow>
               (case (case expire of
                        None \<Rightarrow> redis_set r key cached_data
                      | Some n \<Rightarrow> if n = 0 then redis_set r key cached_data
                                  else redis_setex r key n cached_data) of
                  Inl e \<Rightarrow> (Inl e, w)
                | Inr _ \<Rightarrow> (Inr (), count_set w)))
      | None \<Rightarrow>
          (let (now, w1) = utcnow w
           in case timedelta_seconds (expire_or_default st expire) of
                Inl e \<Rightarrow> (Inl e, w1)
              | Inr delta \<Rightarrow>
                  (case datetime_add now delta of
                     Inl e \<Rightarrow> (Inl e, w1)
                   | Inr expires \<Rightarrow>
                       let w2 = set_memory_cache
                                  ((memory_cache (cache_service w1))
                                     (key \<mapsto> \<lparr>data = val, expires_at = expires\<rparr>)) w1;
                           w3 = cleanup_expired_memory_cache w2
                       in (Inr (), count_set w3))))"

text \<open>\<^verbatim>\<open>CacheService.set\<close>: \<^verbatim>\<open>True\<close>, or \<^verbatim>\<open>False\<close> from the \<^verbatim>\<open>except\<close>.\<close>

definition CacheService_set ::
  "runtime \<Rightarrow> settings \<Rightarrow> string \<Rightarrow> nat \<Rightarrow> int option \<Rightarrow> world \<Rightarrow> bool \<times> world" where
  "CacheService_set rt st key val expire w =
     (case set_body rt st key val expire w of
        (Inl e, w1) \<Rightarrow> (False, w1)
      | (Inr _, w1) \<Rightarrow> (True, w1))"

text \<open>
  \<^verbatim>\<open>generate_cache_key(prefix, **kwargs)\<close>. The keyword arguments are a dict, so their keys
  are distinct and \<^verbatim>\<open>sorted(kwargs.items())\<close> orders the pairs by key.
\<close>

fun str_join :: "string \<Rightarrow> string list \<Rightarrow> string" where
  "str_join sep [] = []"
| "str_join sep [x] = x"
| "str_join sep (x # y # ys) = x @ sep @ str_join sep (y # ys)"

definition generate_cache_key :: "runtime \<Rightarrow> string \<Rightarrow> pydict \<Rightarrow> string" where
  "generate_cache_key rt prefix kwargs =
     (let key_parts = prefix # map (\<lambda>(k, v). k @ '':'' @ fstr rt v) (sort_key fst kwargs);
          key_string = str_join ''|'' key_parts;
          key_hash = md5_hexdigest rt key_string
      in prefix @ '':'' @ key_hash)"

section \<open>The orchestrator: \<^verbatim>\<open>TTSService.synthesize_text\<close>\<close>

text \<open>
  Modelled from the spec: the schema module \<^verbatim>\<open>app/schemas/tts.py\<close> (the classes
  \<^verbatim>\<open>TTSRequest\<close> and \<^verbatim>\<open>TTSResponse\<close>) is not among the sources. \<open>TTSRequest\<close> has the fields of
  the specification's SynthesisRequest, under the names by which \<^verbatim>\<open>synthesize_text\<close> and the
  endpoint read them; \<open>TTSResponse\<close> has the fields of SynthesisResult, under the keyword
  arguments with which \<^verbatim>\<open>synthesize_text\<close> constructs it. The format is a string or an enum
  member (the code handles both).
\<close>

record TTSRequest =
  req_text :: string
  req_voice_id :: string
  req_speed :: rat
  req_volume :: rat
  req_pitch :: rat
  req_format :: pyval
  req_emotion :: "string option"
  req_bitrate :: int
  req_sample_rate :: int

record TTSResponse =
  resp_request_id :: string
  resp_text :: string
  resp_voice_id :: string
  resp_file_path :: string
  resp_file_url :: string
  resp_file_size :: int
  resp_duration :: "rat option"
  resp_format :: pyval
  resp_synthesis_time :: rat
  resp_created_at :: datetime
  resp_status :: string

text \<open>\<^verbatim>\<open>response.dict()\<close>.\<close>

definition TTSResponse_dict :: "TTSResponse \<Rightarrow> pydict" where
  "TTSResponse_dict r =
     [(''request_id'', PStr (resp_request_id r)),
      (''text'', PStr (resp_text r)),
      (''voice_id'', PStr (resp_voice_id r)),
      (''file_path'', PStr (resp_file_path r)),
      (''file_url'', PStr (resp_file_url r)),
      (''file_size'', PInt (resp_file_size r)),
      (''duration'', (case resp_duration r of None \<Rightarrow> PNone | Some d \<Rightarrow> PFloat d)),
      (''format'', resp_format r),
      (''synthesis_time'', PFloat (resp_synthesis_time r)),
      (''created_at'', PTime (resp_created_at r)),
      (''status'', PStr (resp_status r))]"

definition get_str :: "pydict \<Rightarrow> string \<Rightarrow> string option" where
  "get_str d k = (case map_of d k of Some (PStr s) \<Rightarrow> Some s | _ \<Rightarrow> None)"

definition get_int :: "pydict \<Rightarrow> string \<Rightarrow> int option" where
  "get_int d k = (case map_of d k of Some (PInt n) \<Rightarrow> Some n | _ \<Rightarrow> None)"

definition get_float :: "pydict \<Rightarrow> string \<Rightarrow> rat option" where
  "get_float d k = (case map_of d k of Some (PFloat x) \<Rightarrow> Some x | _ \<Rightarrow> None)"

definition get_time :: "pydict \<Rightarrow> string \<Rightarrow> datetime option" where
  "get_time d k = (case map_of d k of Some (PTime t) \<Rightarrow> Some t | _ \<Rightarrow> None)"

definition get_opt_float :: "pydict \<Rightarrow> string \<Rightarrow> rat option option" where
  "get_opt_float d k =
     (case map_of d k of
        None \<Rightarrow> Some None
      | Some PNone \<Rightarrow> Some None
      | Some (PFloat x) \<Rightarrow> Some (Some x)
      | _ \<Rightarrow> None)"

text \<open>
  Modelled from the spec: \<^verbatim>\<open>TTSResponse(**d)\<close>, the constructor of the missing schema class.
  Every field is taken from the dict; a field that is missing or of another type is a
  validation error (the duration may be missing or \<^verbatim>\<open>None\<close>).
\<close>

definition TTSResponse_of :: "pydict \<Rightarrow> error + TTSResponse" where
  "TTSResponse_of d =
     (case
        Option.bind (get_str d ''request_id'') (\<lambda>rid.
        Option.bind (get_str d ''text'') (\<lambda>txt.
        Option.bind (get_str d ''voice_id'') (\<lambda>vid.
        Option.bind (get_str d ''file_path'') (\<lambda>fp.
        Option.bind (get_str d ''file_url'') (\<lambda>fu.
        Option.bind (get_int d ''file_size'') (\<lambda>fs.
        Option.bind (get_opt_float d ''duration'') (\<lambda>du.
        Option.bind (map_of d ''format'') (\<lambda>fmt.
        Option.bind (get_float d ''synthesis_time'') (\<lambda>sy.
        Option.bind (get_time d ''created_at'') (\<lambda>cr.
        Option.bind (get_str d ''status'') (\<lambda>stt.
          Some \<lparr>resp_request_id = rid, resp_text = txt, resp_voice_id = vid,
                resp_file_path = fp, resp_file_url = fu, resp_file_size = fs,
                resp_duration = du, resp_format = fmt, resp_synthesis_time = sy,
                resp_created_at = cr, resp_status = stt\<rparr>)))))))))))
      of None \<Rightarrow> Inl ValidationError
       | Some response \<Rightarrow> Inr response)"

text \<open>\<^verbatim>\<open>request.emotion or "neutral"\<close>.\<close>

definition emotion_or_neutral :: "string option \<Rightarrow> string" where
  "emotion_or_neutral e = (case e of None \<Rightarrow> ''neutral'' | Some s \<Rightarrow> if s = [] then ''neutral'' else s)"

text \<open>The keyword arguments of the \<^verbatim>\<open>generate_cache_key\<close> call, in the order written.\<close>

definition cache_key_kwargs :: "TTSRequest \<Rightarrow> pydict" where
  "cache_key_kwargs request =
     [(''text'', PStr (req_text request)),
      (''voice_id'', PStr (req_voice_id request)),
      (''speed'', PFloat (req_speed request)),
      (''volume'', PFloat (req_volume request)),
      (''pitch'', PFloat (req_pitch request)),
      (''format'', req_format request),
      (''emotion'', PStr (emotion_or_neutral (req_emotion request)))]"

definition request_cache_key :: "runtime \<Rightarrow> TTSRequest \<Rightarrow> string" where
  "request_cache_key rt request = generate_cache_key rt ''tts'' (cache_key_kwargs request)"

text \<open>\<^verbatim>\<open>if cached_result\<close>: something was returned and the dict is not empty.\<close>

definition truthy_cached :: "world \<Rightarrow> nat option \<Rightarrow> bool" where
  "truthy_cached w cached_result = (case cached_result of None \<Rightarrow> False | Some a \<Rightarrow> deref w a \<noteq> [])"

text \<open>
  The cache-hit branch, on the object \<open>a\<close> that \<^verbatim>\<open>get\<close> returned: three item assignments
  on that object, then \<^verbatim>\<open>TTSResponse(**cached_result)\<close>; an exception is re-raised wrapped by
  the \<^verbatim>\<open>except\<close> of \<^verbatim>\<open>synthesize_text\<close>.
\<close>

definition synthesize_text_hit ::
  "runtime \<Rightarrow> settings \<Rightarrow> nat \<Rightarrow> world \<Rightarrow> (error + TTSResponse) \<times> world" where
  "synthesize_text_hit rt st a w =
     (let (rid, w1) = uuid4 w;
          w2 = setitem a ''request_id'' (PStr rid) w1;
          (now, w3) = utcnow w2;
          w4 = setitem a ''created_at'' (PTime now) w3;
          filename = ''tts_'' @ fstr rt (dict_get (deref w4 a) ''request_id'' PNone) @ ''.''
                       @ fstr rt (dict_get (deref w4 a) ''format'' (PStr ''mp3''));
          w5 = setitem a ''file_path'' (PStr (os_path_join (AUDIO_FILES_PATH st) filename)) w4
      in case TTSResponse_of (deref w5 a) of
           Inl e \<Rightarrow> (Inl (SynthesisFailed e), w5)
         | Inr response \<Rightarrow> (Inr response, w5))"

text \<open>
  The rest of \<^verbatim>\<open>synthesize_text\<close>, after a miss: synthesis into a new file, the duration
  probe (a failure is logged, the duration stays \<^verbatim>\<open>None\<close>), the response, and the cache
  write of \<^verbatim>\<open>response.dict()\<close> without its \<^verbatim>\<open>file_path\<close>; the result of \<^verbatim>\<open>set\<close> is ignored.
  \<^verbatim>\<open>_save_history\<close> only writes a log line.
\<close>

definition synthesize_text_miss ::
  "runtime \<Rightarrow> settings \<Rightarrow> VolcanoTTSClient \<Rightarrow> TTSRequest \<Rightarrow> string \<Rightarrow> world \<Rightarrow>
   ((error + TTSResponse) \<times> world) option" where
  "synthesize_text_miss rt st client request cache_key w =
     (let (request_id, w1) = uuid4 w;
          format_str = value_or_str rt (req_format request);
          filename = ''tts_'' @ request_id @ ''.'' @ format_str;
          file_path = os_path_join (AUDIO_FILES_PATH st) filename
      in case synthesize_to_file rt client (req_text request) (req_voice_id request) file_path
                (req_speed request) (req_volume request) (req_pitch request) (req_format request)
                (req_emotion request) w1 of
           None \<Rightarrow> None
         | Some (Inl e, w2) \<Rightarrow> Some (Inl (SynthesisFailed e), w2)
         | Some (Inr result, w2) \<Rightarrow>
             let duration = (case get_audio_duration rt (files w2) file_path of
                               Inl _ \<Rightarrow> None | Inr d \<Rightarrow> Some d);
                 file_url = ''/audio/'' @ filename;
                 (now, w3) = utcnow w2;
                 response = \<lparr>resp_request_id = request_id,
                             resp_text = req_text request,
                             resp_voice_id = req_voice_id request,
                             resp_file_path = file_path,
                             resp_file_url = file_url,
                             resp_file_size = res_file_size result,
                             resp_duration = duration,
                             resp_format = req_format request,
                             resp_synthesis_time = res_synthesis_time result,
                             resp_created_at = now,
                             resp_status = ''success''\<rparr>;
                 (cache_data, w4) = new_dict (AList.delete ''file_path'' (TTSResponse_dict response)) w3;
                 (ok, w5) = CacheService_set rt st cache_key cache_data
                              (Some (CACHE_EXPIRE_SECONDS st)) w4
             in Some (Inr response, w5))"

definition synthesize_text ::
  "runtime \<Rightarrow> settings \<Rightarrow> VolcanoTTSClient \<Rightarrow> TTSRequest \<Rightarrow> string option \<Rightarrow> world \<Rightarrow>
   ((error + TTSResponse) \<times> world) option" where
  "synthesize_text rt st client request user_id w =
     (let cache_key = request_cache_key rt request;
          (cached_result, w1) = CacheService_get rt cache_key w
      in if truthy_cached w1 cached_result
         then (case cached_result of
                 Some a \<Rightarrow> Some (synthesize_text_hit rt st a w1)
               | None \<Rightarrow> synthesize_text_miss rt st client request cache_key w1)
         else synthesize_text_miss rt st client request cache_key w1)"

section \<open>Auxiliary definitions for the statements\<close>

text \<open>
  What the receive loop has yielded after \<open>n\<close> receives, provided each of them was a frame
  that decoded without error and was not terminal; \<open>None\<close> otherwise.
\<close>

definition chunk_list :: "bytes option \<Rightarrow> bytes list" where
  "chunk_list c = (case c of None \<Rightarrow> [] | Some b \<Rightarrow> if b \<noteq> [] then [b] else [])"

primrec prefix_chunks :: "runtime \<Rightarrow> (nat \<Rightarrow> recv_event) \<Rightarrow> nat \<Rightarrow> bytes list option" where
  "prefix_chunks rt recv 0 = Some []"
| "prefix_chunks rt recv (Suc n) =
     (case prefix_chunks rt recv n of
        None \<Rightarrow> None
      | Some ys \<Rightarrow>
          (case recv n of
             RecvFrame r \<Rightarrow>
               (case parse_response rt r of
                  Inr (done, c) \<Rightarrow> if done then None else Some (ys @ chunk_list c)
                | Inl e \<Rightarrow> None)
           | _ \<Rightarrow> None))"

definition is_timeout_or_closed :: "recv_event \<Rightarrow> bool" where
  "is_timeout_or_closed ev =
     (case ev of RecvTimeout \<Rightarrow> True | RecvConnectionClosed \<Rightarrow> True | _ \<Rightarrow> False)"

text \<open>
  The request object \<^verbatim>\<open>synthesize_to_file\<close> sends from state \<open>w\<close>: the request id is the
  first uuid drawn, the user id the second.
\<close>

definition to_file_request ::
  "runtime \<Rightarrow> VolcanoTTSClient \<Rightarrow> string \<Rightarrow> string \<Rightarrow> rat \<Rightarrow> rat \<Rightarrow> rat \<Rightarrow> pyval \<Rightarrow>
   string option \<Rightarrow> world \<Rightarrow> json" where
  "to_file_request rt self text voice_type speed_ratio volume_ratio pitch_ratio encoding emotion w =
     build_request_json rt self (uuid_source w (Suc (uuid_count w))) (uuid_source w (uuid_count w))
       text voice_type speed_ratio volume_ratio pitch_ratio encoding emotion"

subsection \<open>Concrete inputs\<close>

text \<open>
  A runtime for evaluating the code on concrete inputs: text decoding restricted to ASCII,
  the identity as a stand-in digest, a \<^verbatim>\<open>gzip.decompress\<close> that rejects its input (none of
  the inputs used below is gzip data), no audio probe, a file system on which every write
  succeeds, no provider. The statements below replace the fields they need.
\<close>

primrec ascii_decode :: "bytes \<Rightarrow> error + string" where
  "ascii_decode [] = Inr []"
| "ascii_decode (b # bs) =
     (if b < 0x80
      then (case ascii_decode bs of Inl e \<Rightarrow> Inl e | Inr s \<Rightarrow> Inr (char_of (unat b) # s))
      else Inl UnicodeDecodeError)"

definition sample_runtime :: runtime where
  "sample_runtime =
     \<lparr>gzip_decompress = (\<lambda>b. Inl GzipError),
      utf8_decode = ascii_decode,
      md5_hexdigest = (\<lambda>s. s),
      py_format = (\<lambda>v. ''value''),
      json_dumps = (\<lambda>d. Inr ''{}''),
      json_loads = (\<lambda>s. Inl JSONDecodeError),
      get_audio_duration = (\<lambda>fs p. Inl (OtherError ''no probe'')),
      write_file = (\<lambda>path content. Inr ()),
      provider = (\<lambda>j. Inl (OtherError ''no connection''))\<rparr>"

definition sample_client :: VolcanoTTSClient where
  "sample_client =
     \<lparr>app_id = ''app'', access_token = ''token'', cluster = ''volcano_tts'',
      emotion_voices = get_default_emotion_voices\<rparr>"

definition sample_world :: world where
  "sample_world =
     \<lparr>clock = (\<lambda>n. int n * 1000),
      ticks = 0,
      uuid_source = (\<lambda>n. replicate (Suc n) CHR ''u''),
      uuid_count = 0,
      heap = Map.empty,
      heap_next = 0,
      cache_service = \<lparr>redis = None, memory_cache = Map.empty,
                        stats = \<lparr>hits = 0, misses = 0, sets = 0, deletes = 0\<rparr>\<rparr>,
      files = Map.empty,
      ws_sessions = 0\<rparr>"

text \<open>
  A provider that sends one audio frame (sequence number 1, two bytes of audio) and then
  nothing, so that the next receive times out.
\<close>

definition partial_then_timeout :: "nat \<Rightarrow> recv_event" where
  "partial_then_timeout i =
     (if i = 0 then RecvFrame [0x11, 0xb1, 0x10, 0x00, 0, 0, 0, 1, 0, 0, 0, 2, 0xAA, 0xBB]
      else RecvTimeout)"

text \<open>
  The payload of a frame, the decoded message of an error frame, and what makes a frame an
  error frame (message type \<open>0xf\<close>), as \<^verbatim>\<open>_parse_response\<close> computes them.
\<close>

definition frame_payload :: "bytes \<Rightarrow> bytes" where
  "frame_payload response = drop (unat ((response ! 0) AND 0x0f) * 4) response"

definition error_frame_message :: "runtime \<Rightarrow> bytes \<Rightarrow> error + string" where
  "error_frame_message rt response =
     (case (if (response ! 2) AND 0x0f = 1 then gzip_decompress rt (drop 8 (frame_payload response))
            else Inr (drop 8 (frame_payload response))) of
        Inl e \<Rightarrow> Inl e
      | Inr raw \<Rightarrow> utf8_decode rt raw)"

definition is_error_frame :: "bytes \<Rightarrow> bool" where
  "is_error_frame response = (if length response < 4 then False else drop_bit 4 (response ! 1) = 0xf)"

text \<open>An error frame: code 45000, message \<^verbatim>\<open>invalid text\<close>, not compressed.\<close>

definition error_frame_45000 :: bytes where
  "error_frame_45000 =
     [0x11, 0xf0, 0x10, 0x00, 0x00, 0x00, 0xAF, 0xC8, 0x00, 0x00, 0x00, 0x0C,
      0x69, 0x6e, 0x76, 0x61, 0x6c, 0x69, 0x64, 0x20, 0x74, 0x65, 0x78, 0x74]"

definition error_frame_only :: "nat \<Rightarrow> recv_event" where
  "error_frame_only i = RecvFrame error_frame_45000"

text \<open>
  The same error frame with the compression nibble set to 1, its body still the plain
  text: not gzip data, so \<^verbatim>\<open>gzip.decompress\<close> raises on it.
\<close>

definition error_frame_not_gzip :: bytes where
  "error_frame_not_gzip =
     [0x11, 0xf0, 0x11, 0x00, 0x00, 0x00, 0xAF, 0xC8, 0x00, 0x00, 0x00, 0x0C,
      0x69, 0x6e, 0x76, 0x61, 0x6c, 0x69, 0x64, 0x20, 0x74, 0x65, 0x78, 0x74]"

definition error_frame_not_gzip_only :: "nat \<Rightarrow> recv_event" where
  "error_frame_not_gzip_only i = RecvFrame error_frame_not_gzip"

text \<open>
  A cache holding an entry that expired at 500 microseconds and one that lives for a second;
  a clock whose first two readings are 0 and whose later readings are \<open>t\<close>; and the world
  after \<^verbatim>\<open>set("k", value, 1)\<close> at time 0, to be read at time \<open>t\<close>.
\<close>

definition world_with_entries :: world where
  "world_with_entries =
     sample_world\<lparr>cache_service := (cache_service sample_world)
       \<lparr>memory_cache := [''old'' \<mapsto> \<lparr>data = 0, expires_at = 500\<rparr>,
                          ''live'' \<mapsto> \<lparr>data = 1, expires_at = 1000000\<rparr>]\<rparr>\<rparr>"

definition clock_reading_at :: "datetime \<Rightarrow> nat \<Rightarrow> datetime" where
  "clock_reading_at t n = (if n < 2 then 0 else t)"

definition world_after_set :: "datetime \<Rightarrow> world" where
  "world_after_set t =
     snd (CacheService_set sample_runtime default_settings ''k'' 0 (Some 1)
            (sample_world\<lparr>clock := clock_reading_at t\<rparr>))"

text \<open>
  A request, and the same synthesis parameters sent by another caller: the emotion given
  as \<^verbatim>\<open>"neutral"\<close> instead of left out, other bitrate and sample rate.
\<close>

definition sample_request :: TTSRequest where
  "sample_request =
     \<lparr>req_text = ''hello'', req_voice_id = ''v1'', req_speed = 1, req_volume = 1, req_pitch = 1,
      req_format = PStr ''mp3'', req_emotion = None, req_bitrate = 128, req_sample_rate = 24000\<rparr>"

definition sample_request_other_caller :: TTSRequest where
  "sample_request_other_caller =
     sample_request\<lparr>req_emotion := Some ''neutral'', req_bitrate := 64, req_sample_rate := 16000\<rparr>"


text \<open>
  The cache-hit branch in closed form: what a cached dict says about a response, the path
  rebuilt on a hit, and the dict after the three item assignments.
\<close>

definition holds_metadata :: "pydict \<Rightarrow> TTSResponse \<Rightarrow> bool" where
  "holds_metadata d r =
     (map_of d ''request_id'' = Some (PStr (resp_request_id r))
      \<and> map_of d ''text'' = Some (PStr (resp_text r))
      \<and> map_of d ''voice_id'' = Some (PStr (resp_voice_id r))
      \<and> map_of d ''file_url'' = Some (PStr (resp_file_url r))
      \<and> map_of d ''file_size'' = Some (PInt (resp_file_size r))
      \<and> map_of d ''duration'' = Some (case resp_duration r of None \<Rightarrow> PNone | Some x \<Rightarrow> PFloat x)
      \<and> map_of d ''format'' = Some (resp_format r)
      \<and> map_of d ''synthesis_time'' = Some (PFloat (resp_synthesis_time r))
      \<and> map_of d ''created_at'' = Some (PTime (resp_created_at r))
      \<and> map_of d ''status'' = Some (PStr (resp_status r)))"

definition hit_file_path :: "runtime \<Rightarrow> settings \<Rightarrow> string \<Rightarrow> pyval \<Rightarrow> string" where
  "hit_file_path rt st rid fmt =
     os_path_join (AUDIO_FILES_PATH st) (''tts_'' @ rid @ ''.'' @ fstr rt fmt)"

definition hit_dict :: "runtime \<Rightarrow> settings \<Rightarrow> string \<Rightarrow> datetime \<Rightarrow> pydict \<Rightarrow> pydict" where
  "hit_dict rt st rid now d =
     AList.update ''file_path''
       (PStr (hit_file_path rt st rid (dict_get d ''format'' (PStr ''mp3''))))
       (AList.update ''created_at'' (PTime now) (AList.update ''request_id'' (PStr rid) d))"

text \<open>
  The miss branch in closed form: the file name and path derived from the request id drawn
  first, the request object sent (by \<^verbatim>\<open>synthesize_to_file\<close>, after that draw), the response
  built when the stream yielded \<open>ys\<close>, and the state in which \<^verbatim>\<open>set\<close> is then called.
\<close>

definition miss_filename :: "runtime \<Rightarrow> TTSRequest \<Rightarrow> world \<Rightarrow> string" where
  "miss_filename rt request w =
     ''tts_'' @ uuid_source w (uuid_count w) @ ''.'' @ value_or_str rt (req_format request)"

definition miss_file_path :: "runtime \<Rightarrow> settings \<Rightarrow> TTSRequest \<Rightarrow> world \<Rightarrow> string" where
  "miss_file_path rt st request w = os_path_join (AUDIO_FILES_PATH st) (miss_filename rt request w)"

definition miss_request :: "runtime \<Rightarrow> VolcanoTTSClient \<Rightarrow> TTSRequest \<Rightarrow> world \<Rightarrow> json" where
  "miss_request rt client request w =
     to_file_request rt client (req_text request) (req_voice_id request) (req_speed request)
       (req_volume request) (req_pitch request) (req_format request) (req_emotion request)
       (w\<lparr>uuid_count := Suc (uuid_count w)\<rparr>)"

definition miss_response :: "runtime \<Rightarrow> settings \<Rightarrow> TTSRequest \<Rightarrow> world \<Rightarrow> bytes list \<Rightarrow> TTSResponse" where
  "miss_response rt st request w ys =
     \<lparr>resp_request_id = uuid_source w (uuid_count w),
      resp_text = req_text request,
      resp_voice_id = req_voice_id request,
      resp_file_path = miss_file_path rt st request w,
      resp_file_url = ''/audio/'' @ miss_filename rt request w,
      resp_file_size = int (length (concat ys)),
      resp_duration =
        (case get_audio_duration rt ((files w)(miss_file_path rt st request w \<mapsto> concat ys))
                (miss_file_path rt st request w) of
           Inl _ \<Rightarrow> None | Inr d \<Rightarrow> Some d),
      resp_format = req_format request,
      resp_synthesis_time = total_seconds (clock w (Suc (ticks w))) (clock w (ticks w)),
      resp_created_at = clock w (Suc (Suc (ticks w))),
      resp_status = ''success''\<rparr>"

definition miss_world_before_set ::
  "runtime \<Rightarrow> settings \<Rightarrow> TTSRequest \<Rightarrow> world \<Rightarrow> bytes list \<Rightarrow> world" where
  "miss_world_before_set rt st request w ys =
     w\<lparr>uuid_count := Suc (Suc (Suc (uuid_count w))),
       ticks := Suc (Suc (Suc (ticks w))),
       ws_sessions := Suc (ws_sessions w),
       files := (files w)(miss_file_path rt st request w \<mapsto> concat ys),
       heap := (heap w)(heap_next w \<mapsto>
                  AList.delete ''file_path'' (TTSResponse_dict (miss_response rt st request w ys))),
       heap_next := Suc (heap_next w)\<rparr>"


text \<open>
  A response as an earlier miss would have cached it, and a world whose in-memory cache
  holds it (without its \<^verbatim>\<open>file_path\<close>) under the key of \<open>sample_request\<close>.
\<close>

definition sample_response :: TTSResponse where
  "sample_response =
     \<lparr>resp_request_id = ''first'', resp_text = ''hello'', resp_voice_id = ''v1'',
      resp_file_path = ''./audio_files/tts_first.mp3'', resp_file_url = ''/audio/tts_first.mp3'',
      resp_file_size = 2, resp_duration = None, resp_format = PStr ''mp3'',
      resp_synthesis_time = 0, resp_created_at = 0, resp_status = ''success''\<rparr>"

definition world_with_cached_result :: world where
  "world_with_cached_result =
     sample_world
       \<lparr>heap := [0 \<mapsto> AList.delete ''file_path'' (TTSResponse_dict sample_response)],
        heap_next := 1,
        cache_service := (cache_service sample_world)
          \<lparr>memory_cache := [request_cache_key sample_runtime sample_request
                               \<mapsto> \<lparr>data = 0, expires_at = 3600000000\<rparr>]\<rparr>\<rparr>"

text \<open>
  A provider that answers every request with one terminal audio chunk (sequence number -1,
  two bytes of audio), and the state the first synthesis of \<open>sample_request\<close> leaves behind
  when it starts from \<open>sample_world\<close> with that provider.
\<close>

definition terminal_chunk_only :: "nat \<Rightarrow> recv_event" where
  "terminal_chunk_only i =
     RecvFrame [0x11, 0xb1, 0x10, 0x00, 0xff, 0xff, 0xff, 0xff, 0, 0, 0, 2, 0xAA, 0xBB]"

definition serving_runtime :: runtime where
  "serving_runtime = sample_runtime\<lparr>provider := (\<lambda>j. Inr terminal_chunk_only)\<rparr>"

definition world_after_first_call :: world where
  "world_after_first_call =
     (let wb = miss_world_before_set serving_runtime default_settings sample_request
                 (count_miss sample_world) [[0xAA, 0xBB]]
      in count_set (cleanup_expired_memory_cache
           (set_memory_cache
              ((memory_cache (cache_service wb))
                 (request_cache_key serving_runtime sample_request
                    \<mapsto> \<lparr>data = 0, expires_at = 3600003000\<rparr>))
              (wb\<lparr>ticks := Suc (ticks wb)\<rparr>))))"

text \<open>A Redis client every call of which raises, and a world whose cache uses it.\<close>

definition failing_redis :: redis_client where
  "failing_redis =
     \<lparr>redis_get = (\<lambda>key. Inl (OtherError ''connection refused'')),
      redis_setex = (\<lambda>key expire cached_data. Inl (OtherError ''connection refused'')),
      redis_set = (\<lambda>key cached_data. Inl (OtherError ''connection refused''))\<rparr>"

definition world_with_failing_redis :: world where
  "world_with_failing_redis =
     sample_world\<lparr>cache_service := (cache_service sample_world)\<lparr>redis := Some failing_redis\<rparr>\<rparr>"



section \<open>Frame decoding and the receive loop\<close>

lemma parse_audio_frame_example:
  "parse_response rt [0x11, 0xb1, 0x10, 0x00, 0, 0, 0, 1, 0, 0, 0, 2, 0xAA, 0xBB]
     = Inr (False, Some [0xAA, 0xBB])"
  by (simp add: parse_response_def from_bytes_big_signed_def from_bytes_big_def)

lemma recv_loop_prefix:
  "prefix_chunks rt recv n = Some ys \<Longrightarrow> recv_loop rt recv 0 [] = recv_loop rt recv n ys"
proof (induction n arbitrary: ys)
  case 0
  then show ?case by simp
next
  case (Suc n)
  from Suc.prems obtain ys0 r c where
    p: "prefix_chunks rt recv n = Some ys0" and
    r: "recv n = RecvFrame r" and
    q: "parse_response rt r = Inr (False, c)" and
    y: "ys = ys0 @ chunk_list c"
    by (auto split: option.splits recv_event.splits sum.splits if_splits)
  have "recv_loop rt recv n ys0 = recv_loop rt recv (Suc n) ys"
    by (subst recv_loop.simps) (simp add: r q y chunk_list_def split: option.splits)
  with Suc.IH [OF p] show ?case by simp
qed

lemma recv_loop_timeout:
  "is_timeout_or_closed (recv n) \<Longrightarrow> recv_loop rt recv n ys = Some (ys, None)"
  by (subst recv_loop.simps) (simp add: is_timeout_or_closed_def split: recv_event.splits)

lemma stream_timeout:
  assumes "provider rt j = Inr recv" "prefix_chunks rt recv n = Some ys"
    "is_timeout_or_closed (recv n)"
  shows "synthesize_stream_internal rt j = Some (ys, None)"
  using assms recv_loop_prefix [of rt recv n ys] recv_loop_timeout [of recv n rt ys]
  by (simp add: synthesize_stream_internal_def)

lemma to_file_clean:
  assumes "synthesize_stream_internal rt
             (to_file_request rt self text voice_type sr vr pr enc emo w) = Some (ys, None)"
    and "write_file rt output_path (concat ys) = Inr ()"
  shows "synthesize_to_file rt self text voice_type output_path sr vr pr enc emo w =
         Some (Inr \<lparr>res_request_id = uuid_source w (uuid_count w),
                    res_file_path = output_path,
                    res_file_size = int (length (concat ys)),
                    res_synthesis_time =
                      total_seconds (clock w (Suc (ticks w))) (clock w (ticks w)),
                    res_created_at = clock w (ticks w),
                    res_status = ''success''\<rparr>,
               w\<lparr>uuid_count := Suc (Suc (uuid_count w)), ticks := Suc (Suc (ticks w)),
                  ws_sessions := Suc (ws_sessions w),
                  files := (files w)(output_path \<mapsto> concat ys)\<rparr>)"
  using assms
  by (simp add: synthesize_to_file_def to_file_request_def uuid4_def utcnow_def Let_def)

lemma to_file_raises:
  assumes "synthesize_stream_internal rt
             (to_file_request rt self text voice_type sr vr pr enc emo w) = Some (ys, Some e)"
  shows "synthesize_to_file rt self text voice_type output_path sr vr pr enc emo w =
         Some (Inl (SynthesisFailed e),
               w\<lparr>uuid_count := Suc (Suc (uuid_count w)), ticks := Suc (ticks w),
                  ws_sessions := Suc (ws_sessions w)\<rparr>)"
  using assms
  by (simp add: synthesize_to_file_def to_file_request_def uuid4_def utcnow_def Let_def)

lemma to_file_write_fails:
  assumes "synthesize_stream_internal rt
             (to_file_request rt self text voice_type sr vr pr enc emo w) = Some (ys, None)"
    and "write_file rt output_path (concat ys) = Inl (e, left)"
  shows "synthesize_to_file rt self text voice_type output_path sr vr pr enc emo w =
         Some (Inl (SynthesisFailed e),
               w\<lparr>uuid_count := Suc (Suc (uuid_count w)), ticks := Suc (ticks w),
                  ws_sessions := Suc (ws_sessions w),
                  files := (case left of
                              None \<Rightarrow> files w
                            | Some p \<Rightarrow> (files w)(output_path \<mapsto> p))\<rparr>)"
  using assms
  by (cases left)
     (simp_all add: synthesize_to_file_def to_file_request_def uuid4_def utcnow_def Let_def)

subsection \<open>C1: a timeout or a closed connection before the terminal chunk\<close>

text \<open>
  C1, as the specification states it, fails on the code: the two \<^verbatim>\<open>except\<close> clauses of the
  receive loop leave the loop with \<^verbatim>\<open>break\<close>, so the generator ends as it does after a
  terminal chunk. With a provider that sends one audio chunk (sequence number 1) and then
  falls silent, \<^verbatim>\<open>synthesize_to_file\<close> writes the two bytes received and returns status
  \<^verbatim>\<open>success\<close>.
\<close>

theorem timeout_reported_as_success:
  "(case synthesize_to_file (sample_runtime\<lparr>provider := (\<lambda>j. Inr partial_then_timeout)\<rparr>)
           sample_client ''hello'' ''v1'' ''out.mp3'' 1 1 1 (PStr ''mp3'') None sample_world of
      Some (Inr res, w') \<Rightarrow>
        res_status res = ''success'' \<and> files w' ''out.mp3'' = Some [0xAA, 0xBB]
    | _ \<Rightarrow> False)"
proof -
  let ?rt = "sample_runtime\<lparr>provider := (\<lambda>j. Inr partial_then_timeout)\<rparr>"
  have "prefix_chunks ?rt partial_then_timeout (Suc 0) = Some [[0xAA, 0xBB]]"
    by (simp add: partial_then_timeout_def parse_audio_frame_example chunk_list_def)
  moreover have "is_timeout_or_closed (partial_then_timeout (Suc 0))"
    by (simp add: partial_then_timeout_def is_timeout_or_closed_def)
  ultimately have "synthesize_stream_internal ?rt j = Some ([[0xAA, 0xBB]], None)" for j
    by (intro stream_timeout [where n = "Suc 0" and recv = partial_then_timeout]) simp_all
  moreover have "write_file ?rt ''out.mp3'' (concat [[0xAA, 0xBB]]) = Inr ()"
    by (simp add: sample_runtime_def)
  ultimately show ?thesis
    by (simp add: to_file_clean)
qed

text \<open>
  C1, amended: when a receive times out or the connection is closed after \<open>n\<close> frames none
  of which was terminal, the stream ends normally (no exception) with exactly the chunks
  yielded so far; and \<^verbatim>\<open>synthesize_to_file\<close>, provided the output file can be written, writes
  their concatenation to the output path and returns a result with status \<^verbatim>\<open>success\<close> and
  the size of that partial audio.
\<close>

theorem timeout_ends_stream_cleanly:
  assumes "provider rt (to_file_request rt self text voice_type sr vr pr enc emo w) = Inr recv"
    and "prefix_chunks rt recv n = Some ys"
    and "is_timeout_or_closed (recv n)"
    and "write_file rt output_path (concat ys) = Inr ()"
  shows "synthesize_stream_internal rt
           (to_file_request rt self text voice_type sr vr pr enc emo w) = Some (ys, None)
         \<and> (\<exists>res w'. synthesize_to_file rt self text voice_type output_path sr vr pr enc emo w
                        = Some (Inr res, w')
               \<and> res_status res = ''success''
               \<and> res_file_size res = int (length (concat ys))
               \<and> files w' output_path = Some (concat ys))"
  using stream_timeout [OF assms(1-3)] to_file_clean [OF stream_timeout [OF assms(1-3)] assms(4)]
  by simp

theorem timeout_ends_stream_cleanly_witness:
  "provider (sample_runtime\<lparr>provider := (\<lambda>j. Inr partial_then_timeout)\<rparr>)
     (to_file_request (sample_runtime\<lparr>provider := (\<lambda>j. Inr partial_then_timeout)\<rparr>)
        sample_client ''hello'' ''v1'' 1 1 1 (PStr ''mp3'') None sample_world)
     = Inr partial_then_timeout
   \<and> prefix_chunks (sample_runtime\<lparr>provider := (\<lambda>j. Inr partial_then_timeout)\<rparr>)
       partial_then_timeout (Suc 0) = Some [[0xAA, 0xBB]]
   \<and> is_timeout_or_closed (partial_then_timeout (Suc 0))
   \<and> write_file (sample_runtime\<lparr>provider := (\<lambda>j. Inr partial_then_timeout)\<rparr>) ''out.mp3''
       (concat [[0xAA, 0xBB]]) = Inr ()
   \<and> synthesize_stream_internal (sample_runtime\<lparr>provider := (\<lambda>j. Inr partial_then_timeout)\<rparr>)
       (to_file_request (sample_runtime\<lparr>provider := (\<lambda>j. Inr partial_then_timeout)\<rparr>)
          sample_client ''hello'' ''v1'' 1 1 1 (PStr ''mp3'') None sample_world)
       = Some ([[0xAA, 0xBB]], None)
   \<and> (\<exists>res w'. synthesize_to_file (sample_runtime\<lparr>provider := (\<lambda>j. Inr partial_then_timeout)\<rparr>)
                  sample_client ''hello'' ''v1'' ''out.mp3'' 1 1 1 (PStr ''mp3'') None sample_world
                  = Some (Inr res, w')
         \<and> res_status res = ''success''
         \<and> res_file_size res = int (length (concat [[0xAA :: byte, 0xBB]]))
         \<and> files w' ''out.mp3'' = Some (concat [[0xAA, 0xBB]]))"
proof -
  let ?rt = "sample_runtime\<lparr>provider := (\<lambda>j. Inr partial_then_timeout)\<rparr>"
  have a: "provider ?rt
             (to_file_request ?rt sample_client ''hello'' ''v1'' 1 1 1 (PStr ''mp3'') None
                sample_world) = Inr partial_then_timeout"
    by simp
  have b: "prefix_chunks ?rt partial_then_timeout (Suc 0) = Some [[0xAA, 0xBB]]"
    by (simp add: partial_then_timeout_def parse_audio_frame_example chunk_list_def)
  have c: "is_timeout_or_closed (partial_then_timeout (Suc 0))"
    by (simp add: partial_then_timeout_def is_timeout_or_closed_def)
  have d: "write_file ?rt ''out.mp3'' (concat [[0xAA, 0xBB]]) = Inr ()"
    by (simp add: sample_runtime_def)
  from timeout_ends_stream_cleanly [OF a b c d] a b c d show ?thesis
    by (intro conjI) (elim conjE, assumption)+
qed

subsection \<open>C2: frames shorter than four bytes\<close>

text \<open>
  C2, as the specification states it, fails on the code: \<^verbatim>\<open>_parse_response\<close> starts with
  \<^verbatim>\<open>if len(response) < 4: return False, None\<close>. A three-byte frame decodes to the normal
  result "not done, no audio"; nothing is raised.
\<close>

theorem short_frame_is_not_an_error:
  "parse_response sample_runtime [0x11, 0xb1, 0x10] = Inr (False, None)"
  by (simp add: parse_response_def)

text \<open>
  C2, amended: for every byte string of length strictly less than 4, frame decoding does
  not fail; it returns the non-terminal result without audio, \<^verbatim>\<open>(False, None)\<close>.
\<close>

theorem short_frame_ignored:
  "length response < 4 \<Longrightarrow> parse_response rt response = Inr (False, None)"
  by (simp add: parse_response_def)

theorem short_frame_ignored_witness:
  "length [0x11 :: byte, 0xb1, 0x10] < 4
   \<and> parse_response sample_runtime [0x11, 0xb1, 0x10] = Inr (False, None)"
  using short_frame_ignored [of "[0x11, 0xb1, 0x10]" sample_runtime] by simp

subsection \<open>C7: error frames\<close>

lemma parse_error_frame:
  assumes "is_error_frame response"
  shows "parse_response rt response =
           Inl (case error_frame_message rt response of
                  Inl e \<Rightarrow> e
                | Inr msg \<Rightarrow> TTSApiError (from_bytes_big (take 4 (frame_payload response))) msg)"
  using assms
  by (auto simp add: parse_response_def is_error_frame_def error_frame_message_def
        frame_payload_def Let_def split: if_splits sum.splits)

lemma recv_loop_raises:
  "recv n = RecvFrame r \<Longrightarrow> parse_response rt r = Inl e \<Longrightarrow>
     recv_loop rt recv n ys = Some (ys, Some e)"
  by (subst recv_loop.simps) simp

lemma stream_raises:
  assumes "provider rt j = Inr recv" "prefix_chunks rt recv n = Some ys"
    "recv n = RecvFrame r" "parse_response rt r = Inl e"
  shows "synthesize_stream_internal rt j = Some (ys, Some e)"
  using assms recv_loop_prefix [of rt recv n ys] recv_loop_raises [of recv n r rt e ys]
  by (simp add: synthesize_stream_internal_def)

lemma ascii_invalid_text:
  "ascii_decode [0x69, 0x6e, 0x76, 0x61, 0x6c, 0x69, 0x64, 0x20, 0x74, 0x65, 0x78, 0x74]
     = Inr ''invalid text''"
  by code_simp

lemma error_frame_45000_message:
  "error_frame_message sample_runtime error_frame_45000 = Inr ''invalid text''"
  by (simp add: error_frame_message_def error_frame_45000_def frame_payload_def
        sample_runtime_def ascii_invalid_text del: ascii_decode.simps)

lemma error_frame_45000_code:
  "from_bytes_big (take 4 (frame_payload error_frame_45000)) = 45000"
  by (simp add: error_frame_45000_def frame_payload_def from_bytes_big_def)

lemma error_frame_45000_is_error: "is_error_frame error_frame_45000"
  by (simp add: error_frame_45000_def is_error_frame_def)

lemma error_frame_message_provider:
  "error_frame_message (rt\<lparr>provider := p\<rparr>) response = error_frame_message rt response"
  by (simp add: error_frame_message_def split: sum.splits)

lemma error_frame_not_gzip_is_error: "is_error_frame error_frame_not_gzip"
  by (simp add: error_frame_not_gzip_def is_error_frame_def)

lemma error_frame_not_gzip_message:
  "error_frame_message (sample_runtime\<lparr>provider := p\<rparr>) error_frame_not_gzip = Inl GzipError"
  by (simp add: error_frame_message_def error_frame_not_gzip_def sample_runtime_def)

text \<open>
  C7, as the specification states it, fails on the code: the exception of an error frame
  carries the code and the message only when the message body decodes. With an error
  frame for code 45000 whose compression nibble is 1 but whose body is not gzip data,
  \<^verbatim>\<open>gzip.decompress\<close> raises inside \<^verbatim>\<open>_parse_response\<close>, before the exception with code and
  message is built; what aborts the synthesis is that decompression error, which carries
  neither 45000 nor the message.
\<close>

theorem error_frame_without_code_and_message:
  "is_error_frame error_frame_not_gzip
   \<and> parse_response sample_runtime error_frame_not_gzip = Inl GzipError
   \<and> (case synthesize_to_file (sample_runtime\<lparr>provider := (\<lambda>j. Inr error_frame_not_gzip_only)\<rparr>)
             sample_client ''hello'' ''v1'' ''out.mp3'' 1 1 1 (PStr ''mp3'') None sample_world of
        Some (Inl e, w') \<Rightarrow> e = SynthesisFailed GzipError
      | _ \<Rightarrow> False)"
proof -
  let ?rt = "sample_runtime\<lparr>provider := (\<lambda>j. Inr error_frame_not_gzip_only)\<rparr>"
  have m: "error_frame_message sample_runtime error_frame_not_gzip = Inl GzipError"
    by (simp add: error_frame_message_def error_frame_not_gzip_def sample_runtime_def)
  have p: "parse_response sample_runtime error_frame_not_gzip = Inl GzipError"
    by (simp add: parse_error_frame [OF error_frame_not_gzip_is_error] m)
  have q: "parse_response ?rt error_frame_not_gzip = Inl GzipError"
    by (simp add: parse_error_frame [OF error_frame_not_gzip_is_error]
          error_frame_not_gzip_message)
  have a: "provider ?rt j = Inr error_frame_not_gzip_only" for j
    by simp
  have b: "prefix_chunks ?rt error_frame_not_gzip_only 0 = Some []"
    by simp
  have c: "error_frame_not_gzip_only 0 = RecvFrame error_frame_not_gzip"
    by (simp add: error_frame_not_gzip_only_def)
  have "synthesize_to_file ?rt sample_client ''hello'' ''v1'' ''out.mp3'' 1 1 1 (PStr ''mp3'')
          None sample_world
        = Some (Inl (SynthesisFailed GzipError),
                sample_world\<lparr>uuid_count := Suc (Suc (uuid_count sample_world)),
                               ticks := Suc (ticks sample_world),
                               ws_sessions := Suc (ws_sessions sample_world)\<rparr>)"
    by (rule to_file_raises [OF stream_raises [OF a b c q]])
  with error_frame_not_gzip_is_error p show ?thesis
    by simp
qed

text \<open>
  C7, amended: an error frame (message type \<open>0xf\<close>) received while the stream is still
  running makes \<^verbatim>\<open>_parse_response\<close> raise, which aborts \<^verbatim>\<open>synthesize_to_file\<close> before the file
  is opened: the call fails with an exception and the files on disk are as before. When
  the message body decodes (gzip-decompressed when the compression nibble is 1, then
  decoded as UTF-8), the exception carries the error code read from the first four payload
  bytes and the decoded message. The witness is the frame for code 45000 with the
  uncompressed message \<^verbatim>\<open>invalid text\<close>.
\<close>

theorem error_frame_aborts_synthesis:
  assumes "provider rt (to_file_request rt self text voice_type sr vr pr enc emo w) = Inr recv"
    and "prefix_chunks rt recv n = Some ys"
    and "recv n = RecvFrame response"
    and "is_error_frame response"
  shows "\<exists>e w'. synthesize_to_file rt self text voice_type output_path sr vr pr enc emo w
                   = Some (Inl (SynthesisFailed e), w')
           \<and> files w' = files w
           \<and> (\<forall>msg. error_frame_message rt response = Inr msg \<longrightarrow>
                  e = TTSApiError (from_bytes_big (take 4 (frame_payload response))) msg)"
  using to_file_raises [OF stream_raises [OF assms(1,2,3) parse_error_frame [OF assms(4)]]]
  by simp

theorem error_frame_aborts_synthesis_witness:
  "provider (sample_runtime\<lparr>provider := (\<lambda>j. Inr error_frame_only)\<rparr>)
     (to_file_request (sample_runtime\<lparr>provider := (\<lambda>j. Inr error_frame_only)\<rparr>)
        sample_client ''hello'' ''v1'' 1 1 1 (PStr ''mp3'') None sample_world)
     = Inr error_frame_only
   \<and> prefix_chunks (sample_runtime\<lparr>provider := (\<lambda>j. Inr error_frame_only)\<rparr>) error_frame_only 0
       = Some []
   \<and> error_frame_only 0 = RecvFrame error_frame_45000
   \<and> is_error_frame error_frame_45000
   \<and> error_frame_message (sample_runtime\<lparr>provider := (\<lambda>j. Inr error_frame_only)\<rparr>)
       error_frame_45000 = Inr ''invalid text''
   \<and> (\<exists>w'. synthesize_to_file (sample_runtime\<lparr>provider := (\<lambda>j. Inr error_frame_only)\<rparr>)
               sample_client ''hello'' ''v1'' ''out.mp3'' 1 1 1 (PStr ''mp3'') None sample_world
               = Some (Inl (SynthesisFailed (TTSApiError 45000 ''invalid text'')), w')
         \<and> files w' = files sample_world)"
proof -
  let ?rt = "sample_runtime\<lparr>provider := (\<lambda>j. Inr error_frame_only)\<rparr>"
  have a: "provider ?rt
             (to_file_request ?rt sample_client ''hello'' ''v1'' 1 1 1 (PStr ''mp3'') None
                sample_world) = Inr error_frame_only"
    by simp
  have b: "prefix_chunks ?rt error_frame_only 0 = Some []"
    by simp
  have c: "error_frame_only 0 = RecvFrame error_frame_45000"
    by (simp add: error_frame_only_def)
  have m: "error_frame_message ?rt error_frame_45000 = Inr ''invalid text''"
    by (simp add: error_frame_message_provider error_frame_45000_message)
  have d: "is_error_frame error_frame_45000"
    by (rule error_frame_45000_is_error)
  from error_frame_aborts_synthesis [OF a b c d, of "''out.mp3''"]
  obtain e w' where
    r: "synthesize_to_file ?rt sample_client ''hello'' ''v1'' ''out.mp3'' 1 1 1 (PStr ''mp3'') None
          sample_world = Some (Inl (SynthesisFailed e), w')"
    and f: "files w' = files sample_world"
    and e: "\<forall>msg. error_frame_message ?rt error_frame_45000 = Inr msg \<longrightarrow>
              e = TTSApiError (from_bytes_big (take 4 (frame_payload error_frame_45000))) msg"
    by (elim exE conjE)
  from e m have e': "e = TTSApiError 45000 ''invalid text''"
    by (simp add: error_frame_45000_code)
  have "\<exists>w'. synthesize_to_file ?rt sample_client ''hello'' ''v1'' ''out.mp3'' 1 1 1 (PStr ''mp3'')
                None sample_world
                = Some (Inl (SynthesisFailed (TTSApiError 45000 ''invalid text'')), w')
             \<and> files w' = files sample_world"
    using r f unfolding e' by (intro exI [of _ w'] conjI)
  with a b c d m show ?thesis
    by (intro conjI)
qed

subsection \<open>C5: the emotion parameter\<close>

text \<open>
  C5: the request object contains \<^verbatim>\<open>request.emotion\<close> exactly when an emotion was supplied
  (Python truthiness: neither \<^verbatim>\<open>None\<close> nor the empty string) and the voice is in the loaded
  emotion-voice list; then its value is the supplied tag, otherwise the key is absent.
  Building the request has no failing branch. Both \<^verbatim>\<open>synthesize_to_file\<close> and
  \<^verbatim>\<open>synthesize_stream\<close> send the object built here.
\<close>

theorem emotion_included_iff_supported:
  "request_emotion (build_request_json rt self uid reqid text voice_type sr vr pr enc emotion)
     = (if truthy_str emotion \<and> supports_emotion self voice_type
        then map_option JStr emotion else None)"
  by (cases emotion) (simp_all add: request_emotion_def build_request_json_def json_get_def truthy_str_def)

lemma emotion_examples:
  "request_emotion (build_request_json rt sample_client uid reqid text
      ''zh_female_shuangkuaisisi_emo_v2_mars_bigtts'' sr vr pr enc (Some ''happy''))
     = Some (JStr ''happy'')"
  "request_emotion (build_request_json rt sample_client uid reqid text
      ''generic_voice_01'' sr vr pr enc (Some ''happy'')) = None"
  by (simp_all add: request_emotion_def build_request_json_def json_get_def truthy_str_def
       supports_emotion_def sample_client_def get_default_emotion_voices_def)

section \<open>The cache\<close>

lemma memory_get:
  assumes "redis (cache_service w) = None"
    and "memory_cache (cache_service w) key = Some item"
  shows "CacheService_get rt key w =
           (if clock w (ticks w) < expires_at item
            then (Some (data item), count_hit (w\<lparr>ticks := Suc (ticks w)\<rparr>))
            else (None, count_miss (set_memory_cache ((memory_cache (cache_service w))(key := None))
                                      (w\<lparr>ticks := Suc (ticks w)\<rparr>))))"
  using assms by (simp add: CacheService_get_def get_body_def utcnow_def)

lemma memory_set:
  assumes "redis (cache_service w) = None"
    and "timedelta_seconds (expire_or_default st expire) = Inr delta"
    and "datetime_add (clock w (ticks w)) delta = Inr expires"
  shows "CacheService_set rt st key val expire w =
           (True, count_set (cleanup_expired_memory_cache
                    (set_memory_cache ((memory_cache (cache_service w))
                        (key \<mapsto> \<lparr>data = val, expires_at = expires\<rparr>))
                      (w\<lparr>ticks := Suc (ticks w)\<rparr>))))"
  using assms by (simp add: CacheService_set_def set_body_def utcnow_def Let_def)

lemma memory_set_True:
  assumes "redis (cache_service w) = None"
    and "CacheService_set rt st key val expire w = (True, w')"
  shows "\<exists>expires. w' = count_set (cleanup_expired_memory_cache
                    (set_memory_cache ((memory_cache (cache_service w))
                        (key \<mapsto> \<lparr>data = val, expires_at = expires\<rparr>))
                      (w\<lparr>ticks := Suc (ticks w)\<rparr>)))"
  using assms
  by (auto simp add: CacheService_set_def set_body_def utcnow_def Let_def split: sum.splits)

lemma cleanup_memory_cache:
  "memory_cache (cache_service (cleanup_expired_memory_cache w)) k =
     (case memory_cache (cache_service w) k of
        None \<Rightarrow> None
      | Some item \<Rightarrow> if expires_at item \<le> clock w (ticks w) then None else Some item)"
  by (simp add: cleanup_expired_memory_cache_def utcnow_def set_memory_cache_def)

lemma world_after_set_eq:
  "world_after_set t =
     count_set (cleanup_expired_memory_cache
       (set_memory_cache ((memory_cache (cache_service (sample_world\<lparr>clock := clock_reading_at t\<rparr>)))
                            (''k'' \<mapsto> \<lparr>data = 0, expires_at = 1000000\<rparr>))
          (sample_world\<lparr>clock := clock_reading_at t, ticks := Suc 0\<rparr>)))"
proof -
  have "CacheService_set sample_runtime default_settings ''k'' 0 (Some 1)
            (sample_world\<lparr>clock := clock_reading_at t\<rparr>) =
        (True, count_set (cleanup_expired_memory_cache
       (set_memory_cache ((memory_cache (cache_service (sample_world\<lparr>clock := clock_reading_at t\<rparr>)))
                            (''k'' \<mapsto> \<lparr>data = 0, expires_at = 1000000\<rparr>))
          (sample_world\<lparr>clock := clock_reading_at t, ticks := Suc 0\<rparr>))))"
    by (subst memory_set [where delta = 1000000 and expires = 1000000])
       (simp_all add: sample_world_def timedelta_seconds_def clock_reading_at_def
          expire_or_default_def datetime_add_def datetime_min_def datetime_max_def)
  then show ?thesis by (simp add: world_after_set_def)
qed

lemma world_after_set_fields:
  "redis (cache_service (world_after_set t)) = None"
  "memory_cache (cache_service (world_after_set t)) ''k'' = Some \<lparr>data = 0, expires_at = 1000000\<rparr>"
  "clock (world_after_set t) (ticks (world_after_set t)) = t"
  by (simp_all add: world_after_set_eq count_set_def cleanup_memory_cache set_memory_cache_def
        cleanup_expired_memory_cache_def utcnow_def
        sample_world_def clock_reading_at_def)

subsection \<open>C6: reads before and after the expiry\<close>

text \<open>
  C6: on the in-memory cache, \<^verbatim>\<open>get\<close> of a key that has an entry returns the stored value
  when the clock read by \<^verbatim>\<open>get\<close> is strictly before the entry's expiry time; otherwise (at
  or after the expiry time) it returns \<^verbatim>\<open>None\<close> and the entry is no longer in the cache
  afterwards. The witness is the specification's example: an entry set at time 0 with a
  time-to-live of one second is returned at 0.5 s and is absent, and removed, at 1.1 s.
\<close>

theorem get_respects_expiry:
  assumes "redis (cache_service w) = None"
    and "memory_cache (cache_service w) key = Some item"
  shows "(if clock w (ticks w) < expires_at item
          then fst (CacheService_get rt key w) = Some (data item)
          else fst (CacheService_get rt key w) = None
               \<and> memory_cache (cache_service (snd (CacheService_get rt key w))) key = None)"
  by (simp add: memory_get [OF assms] count_miss_def set_memory_cache_def)

theorem get_respects_expiry_witness:
  "redis (cache_service (world_after_set 500000)) = None
   \<and> memory_cache (cache_service (world_after_set 500000)) ''k''
       = Some \<lparr>data = 0, expires_at = 1000000\<rparr>
   \<and> fst (CacheService_get sample_runtime ''k'' (world_after_set 500000)) = Some 0
   \<and> redis (cache_service (world_after_set 1100000)) = None
   \<and> memory_cache (cache_service (world_after_set 1100000)) ''k''
       = Some \<lparr>data = 0, expires_at = 1000000\<rparr>
   \<and> fst (CacheService_get sample_runtime ''k'' (world_after_set 1100000)) = None
   \<and> memory_cache (cache_service (snd (CacheService_get sample_runtime ''k''
         (world_after_set 1100000)))) ''k'' = None"
  using get_respects_expiry [OF world_after_set_fields(1,2), of 500000 sample_runtime]
    get_respects_expiry [OF world_after_set_fields(1,2), of 1100000 sample_runtime]
  by (simp add: world_after_set_fields)

subsection \<open>C10: every successful set sweeps the table\<close>

text \<open>
  C10: on the in-memory cache, when \<^verbatim>\<open>set\<close> returns \<^verbatim>\<open>True\<close>, every entry that is in the
  cache afterwards, under whatever key, has an expiry time strictly later than the time
  the sweep read (the second clock reading of the call): no entry whose expiry time has
  passed remains.
\<close>

theorem set_sweeps_expired:
  assumes "redis (cache_service w) = None"
    and "CacheService_set rt st key val expire w = (True, w')"
    and "memory_cache (cache_service w') k = Some item"
  shows "clock w (Suc (ticks w)) < expires_at item"
proof -
  from memory_set_True [OF assms(1,2)] obtain expires where
    w': "w' = count_set (cleanup_expired_memory_cache
                    (set_memory_cache ((memory_cache (cache_service w))
                        (key \<mapsto> \<lparr>data = val, expires_at = expires\<rparr>))
                      (w\<lparr>ticks := Suc (ticks w)\<rparr>)))" ..
  from assms(3) show ?thesis
    unfolding w'
    by (simp add: count_set_def cleanup_memory_cache set_memory_cache_def
          split: option.splits if_splits)
qed

lemma set_in_world_with_entries:
  "CacheService_set sample_runtime default_settings ''new'' 2 (Some 1) world_with_entries
     = (True, count_set (cleanup_expired_memory_cache
                    (set_memory_cache ((memory_cache (cache_service world_with_entries))
                        (''new'' \<mapsto> \<lparr>data = 2, expires_at = 1000000\<rparr>))
                      (world_with_entries\<lparr>ticks := Suc (ticks world_with_entries)\<rparr>))))"
  by (rule memory_set [where delta = 1000000])
     (simp_all add: world_with_entries_def sample_world_def timedelta_seconds_def
        expire_or_default_def datetime_add_def datetime_min_def datetime_max_def)

theorem set_sweeps_expired_witness:
  "redis (cache_service world_with_entries) = None
   \<and> CacheService_set sample_runtime default_settings ''new'' 2 (Some 1) world_with_entries
       = (True, count_set (cleanup_expired_memory_cache
                    (set_memory_cache ((memory_cache (cache_service world_with_entries))
                        (''new'' \<mapsto> \<lparr>data = 2, expires_at = 1000000\<rparr>))
                      (world_with_entries\<lparr>ticks := Suc (ticks world_with_entries)\<rparr>))))
   \<and> memory_cache (cache_service (count_set (cleanup_expired_memory_cache
                    (set_memory_cache ((memory_cache (cache_service world_with_entries))
                        (''new'' \<mapsto> \<lparr>data = 2, expires_at = 1000000\<rparr>))
                      (world_with_entries\<lparr>ticks := Suc (ticks world_with_entries)\<rparr>))))) ''live''
       = Some \<lparr>data = 1, expires_at = 1000000\<rparr>
   \<and> clock world_with_entries (Suc (ticks world_with_entries))
       < expires_at \<lparr>data = 1, expires_at = 1000000\<rparr>"
proof -
  have a: "redis (cache_service world_with_entries) = None"
    by (simp add: world_with_entries_def sample_world_def)
  note b = set_in_world_with_entries
  have c: "memory_cache (cache_service (count_set (cleanup_expired_memory_cache
                    (set_memory_cache ((memory_cache (cache_service world_with_entries))
                        (''new'' \<mapsto> \<lparr>data = 2, expires_at = 1000000\<rparr>))
                      (world_with_entries\<lparr>ticks := Suc (ticks world_with_entries)\<rparr>))))) ''live''
       = Some \<lparr>data = 1, expires_at = 1000000\<rparr>"
    by (simp add: count_set_def cleanup_memory_cache set_memory_cache_def
          world_with_entries_def sample_world_def)
  from set_sweeps_expired [OF a b c] a b c show ?thesis
    by (intro conjI)
qed

subsection \<open>C3: the cache key\<close>

lemma filter_key_distinct:
  "distinct (map f xs) \<Longrightarrow> k \<in> set xs \<Longrightarrow> filter (\<lambda>x. f k = f x) xs = [k]"
proof (induction xs)
  case Nil
  then show ?case by simp
next
  case (Cons a xs)
  show ?case
  proof (cases "a = k")
    case True
    with Cons.prems have "filter (\<lambda>x. f k = f x) xs = []"
      by (auto simp add: filter_empty_conv)
    with True show ?thesis by simp
  next
    case False
    with Cons.prems have "k \<in> set xs" "f k \<noteq> f a"
      by (auto simp add: image_iff)
    with Cons show ?thesis by simp
  qed
qed

lemma sort_key_permutation:
  assumes "distinct (map f xs)" "mset ys = mset xs"
  shows "sort_key f ys = sort_key f xs"
proof (rule properties_for_sort_key)
  show "mset (sort_key f xs) = mset ys"
    using assms by simp
  show "sorted (map f (sort_key f xs))"
    by simp
  fix k assume k: "k \<in> set (sort_key f xs)"
  have dy: "distinct (map f ys)"
  proof -
    have "mset (map f ys) = mset (map f xs)"
      using assms(2) by simp
    from mset_eq_imp_distinct_iff [OF this] assms(1) show ?thesis
      by blast
  qed
  have ds: "distinct (map f (sort_key f xs))"
    using assms(1) by (simp add: distinct_map)
  have "k \<in> set ys" using k assms(2) by (metis mset_eq_setD set_sort)
  with dy have "filter (\<lambda>x. f k = f x) ys = [k]" by (rule filter_key_distinct)
  moreover from ds k have "filter (\<lambda>x. f k = f x) (sort_key f xs) = [k]"
    by (rule filter_key_distinct)
  ultimately show "filter (\<lambda>x. f k = f x) (sort_key f xs) = filter (\<lambda>x. f k = f x) ys"
    by simp
qed

lemma cache_key_kwargs_distinct: "distinct (map fst (cache_key_kwargs r))"
  by (simp add: cache_key_kwargs_def)

lemma generate_cache_key_permutation:
  assumes "distinct (map fst kwargs)" "mset kwargs' = mset kwargs"
  shows "generate_cache_key rt prefix kwargs' = generate_cache_key rt prefix kwargs"
  by (simp add: generate_cache_key_def sort_key_permutation [OF assms])

text \<open>
  C3: the key \<^verbatim>\<open>synthesize_text\<close> computes is a function of the request's text, voice id,
  speed, volume, pitch, format and emotion-or-\<^verbatim>\<open>"neutral"\<close> only: it is computed from the
  request alone (no request id, user id or clock reading enters it), two requests that
  agree on these seven values get the same key, and so does any call of
  \<^verbatim>\<open>generate_cache_key\<close> that passes the same seven keyword arguments in another order.
\<close>

theorem cache_key_deterministic:
  assumes "req_text r1 = req_text r2"
    and "req_voice_id r1 = req_voice_id r2"
    and "req_speed r1 = req_speed r2"
    and "req_volume r1 = req_volume r2"
    and "req_pitch r1 = req_pitch r2"
    and "req_format r1 = req_format r2"
    and "emotion_or_neutral (req_emotion r1) = emotion_or_neutral (req_emotion r2)"
    and "mset kwargs = mset (cache_key_kwargs r2)"
  shows "generate_cache_key rt ''tts'' kwargs = request_cache_key rt r1"
proof -
  have "cache_key_kwargs r1 = cache_key_kwargs r2"
    using assms(1-7) by (simp add: cache_key_kwargs_def)
  with assms(8) have "mset kwargs = mset (cache_key_kwargs r1)" by simp
  from generate_cache_key_permutation [OF cache_key_kwargs_distinct this]
  show ?thesis by (simp add: request_cache_key_def)
qed

theorem cache_key_deterministic_witness:
  "req_text sample_request = req_text sample_request_other_caller
   \<and> req_voice_id sample_request = req_voice_id sample_request_other_caller
   \<and> req_speed sample_request = req_speed sample_request_other_caller
   \<and> req_volume sample_request = req_volume sample_request_other_caller
   \<and> req_pitch sample_request = req_pitch sample_request_other_caller
   \<and> req_format sample_request = req_format sample_request_other_caller
   \<and> emotion_or_neutral (req_emotion sample_request)
       = emotion_or_neutral (req_emotion sample_request_other_caller)
   \<and> mset (rev (cache_key_kwargs sample_request_other_caller))
       = mset (cache_key_kwargs sample_request_other_caller)
   \<and> generate_cache_key sample_runtime ''tts'' (rev (cache_key_kwargs sample_request_other_caller))
       = request_cache_key sample_runtime sample_request"
proof -
  have a: "req_text sample_request = req_text sample_request_other_caller"
    and b: "req_voice_id sample_request = req_voice_id sample_request_other_caller"
    and c: "req_speed sample_request = req_speed sample_request_other_caller"
    and d: "req_volume sample_request = req_volume sample_request_other_caller"
    and e: "req_pitch sample_request = req_pitch sample_request_other_caller"
    and f: "req_format sample_request = req_format sample_request_other_caller"
    and g: "emotion_or_neutral (req_emotion sample_request)
              = emotion_or_neutral (req_emotion sample_request_other_caller)"
    by (simp_all add: sample_request_def sample_request_other_caller_def emotion_or_neutral_def)
  have h: "mset (rev (cache_key_kwargs sample_request_other_caller))
             = mset (cache_key_kwargs sample_request_other_caller)"
    by simp
  from cache_key_deterministic [OF a b c d e f g h, of sample_runtime] a b c d e f g h
  show ?thesis by (intro conjI)
qed

lemma sample_cache_key:
  "request_cache_key sample_runtime sample_request
     = ''tts:tts|emotion:neutral|format:mp3|pitch:value|speed:value|text:hello|voice_id:v1|volume:value''"
  by (simp add: request_cache_key_def generate_cache_key_def cache_key_kwargs_def sample_request_def
        sample_runtime_def emotion_or_neutral_def fstr_def)

section \<open>The orchestrator\<close>

lemma holds_metadata_cache_data:
  "holds_metadata (AList.delete ''file_path'' (TTSResponse_dict r)) r"
  by (simp add: holds_metadata_def TTSResponse_dict_def)

lemma holds_metadata_nonempty: "holds_metadata d r \<Longrightarrow> d \<noteq> []"
  by (auto simp add: holds_metadata_def)

lemma dict_get_update:
  "dict_get (AList.update k v d) k' dflt = (if k = k' then v else dict_get d k' dflt)"
  by (simp add: dict_get_def update_conv')

lemma fstr_PStr: "fstr rt (PStr s) = s"
  by (simp add: fstr_def)

lemma deref_heap: "heap w a = Some d \<Longrightarrow> deref w a = d"
  by (simp add: deref_def)

lemma hit_eval:
  assumes "heap w a = Some d"
  shows "synthesize_text_hit rt st a w =
           ((case TTSResponse_of (hit_dict rt st (uuid_source w (uuid_count w)) (clock w (ticks w)) d) of
               Inl e \<Rightarrow> Inl (SynthesisFailed e)
             | Inr response \<Rightarrow> Inr response),
            w\<lparr>uuid_count := Suc (uuid_count w), ticks := Suc (ticks w),
               heap := (heap w)(a \<mapsto> hit_dict rt st (uuid_source w (uuid_count w))
                                        (clock w (ticks w)) d)\<rparr>)"
  using assms
  by (simp add: synthesize_text_hit_def uuid4_def utcnow_def setitem_def deref_heap Let_def
        hit_dict_def hit_file_path_def dict_get_update fstr_PStr
        cong: sum.case_cong split: sum.splits)

lemma response_of_hit_dict:
  assumes "holds_metadata d r"
  shows "TTSResponse_of (hit_dict rt st rid now d) =
           Inr (r\<lparr>resp_request_id := rid, resp_created_at := now,
                  resp_file_path := hit_file_path rt st rid (resp_format r)\<rparr>)"
  using assms
  by (cases "resp_duration r")
     (simp_all add: holds_metadata_def TTSResponse_of_def hit_dict_def update_conv' dict_get_def
        get_str_def get_int_def get_float_def get_time_def get_opt_float_def)

lemma count_hit_fields:
  "heap (count_hit w) = heap w" "ticks (count_hit w) = ticks w" "clock (count_hit w) = clock w"
  "uuid_source (count_hit w) = uuid_source w" "uuid_count (count_hit w) = uuid_count w"
  "files (count_hit w) = files w" "ws_sessions (count_hit w) = ws_sessions w"
  "memory_cache (cache_service (count_hit w)) = memory_cache (cache_service w)"
  "redis (cache_service (count_hit w)) = redis (cache_service w)"
  by (simp_all add: count_hit_def)

lemma synthesize_text_hit_path:
  assumes "redis (cache_service w) = None"
    and "memory_cache (cache_service w) (request_cache_key rt request) = Some item"
    and "clock w (ticks w) < expires_at item"
    and "heap w (data item) = Some d"
    and "d \<noteq> []"
  shows "synthesize_text rt st client request user_id w =
           Some (synthesize_text_hit rt st (data item) (count_hit (w\<lparr>ticks := Suc (ticks w)\<rparr>)))"
  using assms
  by (simp add: synthesize_text_def Let_def memory_get [OF assms(1,2)] truthy_cached_def
        deref_def count_hit_fields)

lemma miss_returns_response:
  assumes "synthesize_to_file rt client (req_text request) (req_voice_id request)
             (miss_file_path rt st request w) (req_speed request) (req_volume request)
             (req_pitch request) (req_format request) (req_emotion request)
             (w\<lparr>uuid_count := Suc (uuid_count w)\<rparr>) = Some (Inr result, w2)"
  shows "\<exists>response w'. synthesize_text_miss rt st client request cache_key w
                         = Some (Inr response, w')"
  using assms
  by (simp add: synthesize_text_miss_def uuid4_def Let_def miss_file_path_def miss_filename_def
        split: prod.splits)

lemma miss_eval:
  assumes "synthesize_stream_internal rt (miss_request rt client request w) = Some (ys, None)"
    and "write_file rt (miss_file_path rt st request w) (concat ys) = Inr ()"
  shows "synthesize_text_miss rt st client request cache_key w =
           Some (Inr (miss_response rt st request w ys),
                 snd (CacheService_set rt st cache_key (heap_next w)
                        (Some (CACHE_EXPIRE_SECONDS st))
                        (miss_world_before_set rt st request w ys)))"
proof -
  have "synthesize_to_file rt client (req_text request) (req_voice_id request)
             (miss_file_path rt st request w) (req_speed request) (req_volume request)
             (req_pitch request) (req_format request) (req_emotion request)
             (w\<lparr>uuid_count := Suc (uuid_count w)\<rparr>) =
        Some (Inr \<lparr>res_request_id = uuid_source w (Suc (uuid_count w)),
                    res_file_path = miss_file_path rt st request w,
                    res_file_size = int (length (concat ys)),
                    res_synthesis_time =
                      total_seconds (clock w (Suc (ticks w))) (clock w (ticks w)),
                    res_created_at = clock w (ticks w),
                    res_status = ''success''\<rparr>,
               w\<lparr>uuid_count := Suc (Suc (Suc (uuid_count w))), ticks := Suc (Suc (ticks w)),
                  ws_sessions := Suc (ws_sessions w),
                  files := (files w)(miss_file_path rt st request w \<mapsto> concat ys)\<rparr>)"
    using to_file_clean [OF assms(1) [unfolded miss_request_def] assms(2)] by simp
  then show ?thesis
    by (cases w)
       (simp add: synthesize_text_miss_def uuid4_def utcnow_def new_dict_def Let_def
          miss_file_path_def miss_filename_def miss_response_def miss_world_before_set_def
          split_beta)
qed

subsection \<open>C4: a cache hit\<close>

text \<open>
  C4: when the in-memory cache holds an unexpired entry under the request's key, and that
  entry holds the metadata of an earlier response, \<^verbatim>\<open>synthesize_text\<close> returns a response
  without opening a websocket session and without touching the files; its request id is
  the uuid drawn in this call, its file path is built from that id under the audio
  directory, and its voice id, format, file size and duration are those of the cached
  entry.
\<close>

theorem cache_hit_skips_synthesis:
  assumes "redis (cache_service w) = None"
    and "memory_cache (cache_service w) (request_cache_key rt request) = Some item"
    and "clock w (ticks w) < expires_at item"
    and "heap w (data item) = Some d"
    and "holds_metadata d cached"
  shows "\<exists>response w'.
           synthesize_text rt st client request user_id w = Some (Inr response, w')
           \<and> ws_sessions w' = ws_sessions w
           \<and> files w' = files w
           \<and> resp_request_id response = uuid_source w (uuid_count w)
           \<and> uuid_count w' = Suc (uuid_count w)
           \<and> resp_file_path response
               = os_path_join (AUDIO_FILES_PATH st)
                   (''tts_'' @ uuid_source w (uuid_count w) @ ''.'' @ fstr rt (resp_format cached))
           \<and> resp_voice_id response = resp_voice_id cached
           \<and> resp_format response = resp_format cached
           \<and> resp_file_size response = resp_file_size cached
           \<and> resp_duration response = resp_duration cached"
proof -
  let ?w1 = "count_hit (w\<lparr>ticks := Suc (ticks w)\<rparr>)"
  have h: "heap ?w1 (data item) = Some d"
    using assms(4) by (simp add: count_hit_fields)
  show ?thesis
    by (simp add: synthesize_text_hit_path [OF assms(1-4) holds_metadata_nonempty [OF assms(5)]]
          hit_eval [OF h] response_of_hit_dict [OF assms(5)] count_hit_fields hit_file_path_def)
qed

theorem cache_hit_skips_synthesis_witness:
  "redis (cache_service world_with_cached_result) = None
   \<and> memory_cache (cache_service world_with_cached_result)
         (request_cache_key sample_runtime sample_request)
       = Some \<lparr>data = 0, expires_at = 3600000000\<rparr>
   \<and> clock world_with_cached_result (ticks world_with_cached_result)
       < expires_at \<lparr>data = 0, expires_at = 3600000000\<rparr>
   \<and> heap world_with_cached_result (data \<lparr>data = 0, expires_at = 3600000000\<rparr>)
       = Some (AList.delete ''file_path'' (TTSResponse_dict sample_response))
   \<and> holds_metadata (AList.delete ''file_path'' (TTSResponse_dict sample_response)) sample_response
   \<and> (\<exists>response w'.
         synthesize_text sample_runtime default_settings sample_client sample_request None
           world_with_cached_result = Some (Inr response, w')
         \<and> ws_sessions w' = 0
         \<and> files w' = Map.empty
         \<and> resp_request_id response = ''u''
         \<and> resp_file_path response = ''./audio_files/tts_u.mp3''
         \<and> resp_voice_id response = ''v1''
         \<and> resp_format response = PStr ''mp3''
         \<and> resp_file_size response = 2
         \<and> resp_duration response = None)"
proof -
  let ?item = "\<lparr>data = 0, expires_at = 3600000000\<rparr>"
  have a: "redis (cache_service world_with_cached_result) = None"
    by (simp add: world_with_cached_result_def sample_world_def)
  have b: "memory_cache (cache_service world_with_cached_result)
             (request_cache_key sample_runtime sample_request) = Some ?item"
    by (simp add: world_with_cached_result_def)
  have c: "clock world_with_cached_result (ticks world_with_cached_result) < expires_at ?item"
    by (simp add: world_with_cached_result_def sample_world_def)
  have d: "heap world_with_cached_result (data ?item)
             = Some (AList.delete ''file_path'' (TTSResponse_dict sample_response))"
    by (simp add: world_with_cached_result_def)
  have e: "holds_metadata (AList.delete ''file_path'' (TTSResponse_dict sample_response))
             sample_response"
    by (rule holds_metadata_cache_data)
  have f: "ws_sessions world_with_cached_result = 0" "files world_with_cached_result = Map.empty"
    "uuid_source world_with_cached_result (uuid_count world_with_cached_result) = ''u''"
    by (simp_all add: world_with_cached_result_def sample_world_def)
  have g: "os_path_join (AUDIO_FILES_PATH default_settings)
             (''tts_'' @ ''u'' @ ''.'' @ fstr sample_runtime (PStr ''mp3''))
           = ''./audio_files/tts_u.mp3''"
    by (simp add: os_path_join_def default_settings_def sample_response_def fstr_def)
  have h: "resp_voice_id sample_response = ''v1''" "resp_format sample_response = PStr ''mp3''"
    "resp_file_size sample_response = 2" "resp_duration sample_response = None"
    by (simp_all add: sample_response_def)
  from cache_hit_skips_synthesis [OF a b c d e, of default_settings sample_client None]
  have "\<exists>response w'.
         synthesize_text sample_runtime default_settings sample_client sample_request None
           world_with_cached_result = Some (Inr response, w')
         \<and> ws_sessions w' = 0
         \<and> files w' = Map.empty
         \<and> resp_request_id response = ''u''
         \<and> resp_file_path response = ''./audio_files/tts_u.mp3''
         \<and> resp_voice_id response = ''v1''
         \<and> resp_format response = PStr ''mp3''
         \<and> resp_file_size response = 2
         \<and> resp_duration response = None"
    unfolding f h g by (elim exE conjE) (intro exI conjI, assumption+)
  with a b c d e show ?thesis
    by (intro conjI)
qed

subsection \<open>C9: what a cache hit does to the cached entry\<close>

lemma parse_terminal_frame_example:
  "parse_response rt [0x11, 0xb1, 0x10, 0x00, 0xff, 0xff, 0xff, 0xff, 0, 0, 0, 2, 0xAA, 0xBB]
     = Inr (True, Some [0xAA, 0xBB])"
  by (simp add: parse_response_def from_bytes_big_signed_def from_bytes_big_def)

lemma recv_loop_done:
  "recv n = RecvFrame r \<Longrightarrow> parse_response rt r = Inr (True, c) \<Longrightarrow>
     recv_loop rt recv n ys = Some (ys @ chunk_list c, None)"
  by (subst recv_loop.simps) (simp add: chunk_list_def split: option.splits)

lemma stream_done:
  assumes "provider rt j = Inr recv" "prefix_chunks rt recv n = Some ys"
    "recv n = RecvFrame r" "parse_response rt r = Inr (True, c)"
  shows "synthesize_stream_internal rt j = Some (ys @ chunk_list c, None)"
  using assms recv_loop_prefix [of rt recv n ys] recv_loop_done [of recv n r rt c ys]
  by (simp add: synthesize_stream_internal_def)

lemma serving_runtime_stream:
  "synthesize_stream_internal serving_runtime j = Some ([[0xAA, 0xBB]], None)"
  using stream_done [of serving_runtime j terminal_chunk_only 0 "[]" _ "Some [0xAA, 0xBB]"]
  by (simp add: serving_runtime_def terminal_chunk_only_def parse_terminal_frame_example
        chunk_list_def)

lemma serving_runtime_write: "write_file serving_runtime path content = Inr ()"
  by (simp add: serving_runtime_def sample_runtime_def)

lemma count_miss_fields:
  "heap (count_miss w) = heap w" "heap_next (count_miss w) = heap_next w"
  "ticks (count_miss w) = ticks w" "clock (count_miss w) = clock w"
  "uuid_source (count_miss w) = uuid_source w" "uuid_count (count_miss w) = uuid_count w"
  "files (count_miss w) = files w" "ws_sessions (count_miss w) = ws_sessions w"
  "memory_cache (cache_service (count_miss w)) = memory_cache (cache_service w)"
  "redis (cache_service (count_miss w)) = redis (cache_service w)"
  by (simp_all add: count_miss_def)

lemma count_set_fields:
  "heap (count_set w) = heap w" "heap_next (count_set w) = heap_next w"
  "ticks (count_set w) = ticks w" "clock (count_set w) = clock w"
  "uuid_source (count_set w) = uuid_source w" "uuid_count (count_set w) = uuid_count w"
  "files (count_set w) = files w" "ws_sessions (count_set w) = ws_sessions w"
  "memory_cache (cache_service (count_set w)) = memory_cache (cache_service w)"
  "redis (cache_service (count_set w)) = redis (cache_service w)"
  by (simp_all add: count_set_def)

lemma set_memory_cache_fields:
  "heap (set_memory_cache m w) = heap w" "heap_next (set_memory_cache m w) = heap_next w"
  "ticks (set_memory_cache m w) = ticks w" "clock (set_memory_cache m w) = clock w"
  "uuid_source (set_memory_cache m w) = uuid_source w"
  "uuid_count (set_memory_cache m w) = uuid_count w"
  "files (set_memory_cache m w) = files w" "ws_sessions (set_memory_cache m w) = ws_sessions w"
  "memory_cache (cache_service (set_memory_cache m w)) = m"
  "redis (cache_service (set_memory_cache m w)) = redis (cache_service w)"
  by (simp_all add: set_memory_cache_def)

lemma cleanup_fields:
  "heap (cleanup_expired_memory_cache w) = heap w"
  "heap_next (cleanup_expired_memory_cache w) = heap_next w"
  "ticks (cleanup_expired_memory_cache w) = Suc (ticks w)"
  "clock (cleanup_expired_memory_cache w) = clock w"
  "uuid_source (cleanup_expired_memory_cache w) = uuid_source w"
  "uuid_count (cleanup_expired_memory_cache w) = uuid_count w"
  "files (cleanup_expired_memory_cache w) = files w"
  "ws_sessions (cleanup_expired_memory_cache w) = ws_sessions w"
  "redis (cache_service (cleanup_expired_memory_cache w)) = redis (cache_service w)"
  by (simp_all add: cleanup_expired_memory_cache_def utcnow_def set_memory_cache_def)

lemma miss_world_before_set_fields:
  "heap (miss_world_before_set rt st request w ys) =
     (heap w)(heap_next w \<mapsto>
        AList.delete ''file_path'' (TTSResponse_dict (miss_response rt st request w ys)))"
  "heap_next (miss_world_before_set rt st request w ys) = Suc (heap_next w)"
  "ticks (miss_world_before_set rt st request w ys) = Suc (Suc (Suc (ticks w)))"
  "clock (miss_world_before_set rt st request w ys) = clock w"
  "uuid_source (miss_world_before_set rt st request w ys) = uuid_source w"
  "uuid_count (miss_world_before_set rt st request w ys) = Suc (Suc (Suc (uuid_count w)))"
  "files (miss_world_before_set rt st request w ys) =
     (files w)(miss_file_path rt st request w \<mapsto> concat ys)"
  "ws_sessions (miss_world_before_set rt st request w ys) = Suc (ws_sessions w)"
  "cache_service (miss_world_before_set rt st request w ys) = cache_service w"
  by (simp_all add: miss_world_before_set_def)

lemma synthesize_text_absent:
  assumes "redis (cache_service w) = None"
    and "memory_cache (cache_service w) (request_cache_key rt request) = None"
  shows "synthesize_text rt st client request user_id w =
           synthesize_text_miss rt st client request (request_cache_key rt request) (count_miss w)"
  using assms
  by (simp add: synthesize_text_def CacheService_get_def get_body_def truthy_cached_def)

lemma synthesize_text_on_hit:
  assumes "redis (cache_service w) = None"
    and "memory_cache (cache_service w) (request_cache_key rt request) = Some item"
    and "clock w (ticks w) < expires_at item"
    and "heap w (data item) = Some d"
    and "holds_metadata d cached"
  shows "synthesize_text rt st client request user_id w =
           Some (Inr (cached\<lparr>resp_request_id := uuid_source w (uuid_count w),
                             resp_created_at := clock w (Suc (ticks w)),
                             resp_file_path := hit_file_path rt st (uuid_source w (uuid_count w))
                                                 (resp_format cached)\<rparr>),
                 (count_hit (w\<lparr>ticks := Suc (ticks w)\<rparr>))
                   \<lparr>uuid_count := Suc (uuid_count w), ticks := Suc (Suc (ticks w)),
                    heap := (heap w)(data item \<mapsto>
                              hit_dict rt st (uuid_source w (uuid_count w))
                                (clock w (Suc (ticks w))) d)\<rparr>)"
proof -
  let ?w1 = "count_hit (w\<lparr>ticks := Suc (ticks w)\<rparr>)"
  have h: "heap ?w1 (data item) = Some d"
    using assms(4) by (simp add: count_hit_fields)
  show ?thesis
    by (simp add: synthesize_text_hit_path [OF assms(1-4) holds_metadata_nonempty [OF assms(5)]]
          hit_eval [OF h] response_of_hit_dict [OF assms(5)] count_hit_fields)
qed

lemma hit_dict_file_path:
  "map_of (hit_dict rt st rid now d) ''file_path''
     = Some (PStr (hit_file_path rt st rid (dict_get d ''format'' (PStr ''mp3''))))"
  by (simp add: hit_dict_def update_conv')

lemma holds_metadata_format:
  "holds_metadata d r \<Longrightarrow> dict_get d ''format'' dflt = resp_format r"
  by (simp add: holds_metadata_def dict_get_def)

lemma hit_writes_into_cache:
  assumes "redis (cache_service w) = None"
    and "memory_cache (cache_service w) (request_cache_key rt request) = Some item"
    and "clock w (ticks w) < expires_at item"
    and "heap w (data item) = Some d"
    and "holds_metadata d cached"
  shows "\<exists>response w'.
           synthesize_text rt st client request user_id w = Some (Inr response, w')
           \<and> memory_cache (cache_service w') (request_cache_key rt request) = Some item
           \<and> map_of (deref w' (data item)) ''file_path'' = Some (PStr (resp_file_path response))"
  using assms(2)
  by (simp add: synthesize_text_on_hit [OF assms] count_hit_fields deref_def hit_dict_file_path
        holds_metadata_format [OF assms(5)])

lemma cache_hit_keeps_file_url:
  assumes "redis (cache_service w) = None"
    and "memory_cache (cache_service w) (request_cache_key rt request) = Some item"
    and "clock w (ticks w) < expires_at item"
    and "heap w (data item) = Some d"
    and "holds_metadata d cached"
  shows "\<exists>response w'.
           synthesize_text rt st client request user_id w = Some (Inr response, w')
           \<and> resp_file_url response = resp_file_url cached
           \<and> resp_file_path response
               = hit_file_path rt st (uuid_source w (uuid_count w)) (resp_format cached)
           \<and> files w' = files w"
  by (simp add: synthesize_text_on_hit [OF assms] count_hit_fields)

lemma first_call:
  "synthesize_text serving_runtime default_settings sample_client sample_request None sample_world
     = Some (Inr (miss_response serving_runtime default_settings sample_request
                    (count_miss sample_world) [[0xAA, 0xBB]]),
             world_after_first_call)"
proof -
  let ?wb = "miss_world_before_set serving_runtime default_settings sample_request
               (count_miss sample_world) [[0xAA, 0xBB]]"
  let ?key = "request_cache_key serving_runtime sample_request"
  have a: "redis (cache_service sample_world) = None"
    "memory_cache (cache_service sample_world) ?key = None"
    by (simp_all add: sample_world_def)
  have b: "redis (cache_service ?wb) = None"
    by (simp add: miss_world_before_set_fields count_miss_fields sample_world_def)
  have c: "timedelta_seconds (expire_or_default default_settings
             (Some (CACHE_EXPIRE_SECONDS default_settings))) = Inr 3600000000"
    by (simp add: timedelta_seconds_def expire_or_default_def default_settings_def)
  have d: "datetime_add (clock ?wb (ticks ?wb)) 3600000000 = Inr 3600003000"
    by (simp add: miss_world_before_set_fields count_miss_fields sample_world_def
          datetime_add_def datetime_min_def datetime_max_def)
  have e: "heap_next (count_miss sample_world) = 0"
    by (simp add: count_miss_fields sample_world_def)
  show ?thesis
    unfolding synthesize_text_absent [OF a] miss_eval [OF serving_runtime_stream serving_runtime_write]
      memory_set [OF b c d] e world_after_first_call_def Let_def
    by simp
qed

lemma world_after_first_call_fields:
  "redis (cache_service world_after_first_call) = None"
  "memory_cache (cache_service world_after_first_call)
     (request_cache_key serving_runtime sample_request)
     = Some \<lparr>data = 0, expires_at = 3600003000\<rparr>"
  "clock world_after_first_call (ticks world_after_first_call) = 5000"
  "heap world_after_first_call 0
     = Some (AList.delete ''file_path''
               (TTSResponse_dict (miss_response serving_runtime default_settings sample_request
                                    (count_miss sample_world) [[0xAA, 0xBB]])))"
  by (simp_all add: world_after_first_call_def Let_def count_set_fields cleanup_fields
        cleanup_memory_cache set_memory_cache_fields miss_world_before_set_fields
        count_miss_fields sample_world_def)

text \<open>
  C9 holds in its first two parts (\<open>cache_hit_keeps_file_url\<close>: on a hit the path is
  rebuilt from the new request id, no file is written, and the URL is the cached one).
  Its last part, that the cached entry never contains a \<^verbatim>\<open>file_path\<close>, is what the code's
  comments say and what the code breaks. The in-memory \<^verbatim>\<open>get\<close> returns the stored dict
  itself, and the hit branch assigns \<^verbatim>\<open>cached_result["file_path"]\<close> on it. Synthesizing
  the same request twice from an empty cache: after the first call the cached entry has
  no \<^verbatim>\<open>file_path\<close>; after the second call (a hit) the same entry, still in the cache,
  contains the \<^verbatim>\<open>file_path\<close> of the second response.
\<close>

theorem cache_hit_stores_file_path_in_cache:
  "(case synthesize_text serving_runtime default_settings sample_client sample_request None
           sample_world of
      Some (Inr first_response, w1) \<Rightarrow>
        (case memory_cache (cache_service w1) (request_cache_key serving_runtime sample_request) of
           Some item \<Rightarrow>
             map_of (deref w1 (data item)) ''file_path'' = None
             \<and> (case synthesize_text serving_runtime default_settings sample_client
                        sample_request None w1 of
                  Some (Inr second_response, w2) \<Rightarrow>
                    memory_cache (cache_service w2)
                      (request_cache_key serving_runtime sample_request) = Some item
                    \<and> map_of (deref w2 (data item)) ''file_path''
                        = Some (PStr (resp_file_path second_response))
                | _ \<Rightarrow> False)
         | None \<Rightarrow> False)
    | _ \<Rightarrow> False)"
proof -
  let ?item = "\<lparr>data = 0, expires_at = 3600003000\<rparr>"
  let ?r1 = "miss_response serving_runtime default_settings sample_request
               (count_miss sample_world) [[0xAA, 0xBB]]"
  have c: "clock world_after_first_call (ticks world_after_first_call) < expires_at ?item"
    by (simp add: world_after_first_call_fields)
  have d: "heap world_after_first_call (data ?item)
             = Some (AList.delete ''file_path'' (TTSResponse_dict ?r1))"
    by (simp add: world_after_first_call_fields)
  from hit_writes_into_cache [OF world_after_first_call_fields(1,2) c d holds_metadata_cache_data,
      of default_settings sample_client None]
  obtain second_response w2 where
    s: "synthesize_text serving_runtime default_settings sample_client sample_request None
          world_after_first_call = Some (Inr second_response, w2)"
    and m: "memory_cache (cache_service w2) (request_cache_key serving_runtime sample_request)
              = Some ?item"
    and f: "map_of (deref w2 (data ?item)) ''file_path''
              = Some (PStr (resp_file_path second_response))"
    by (elim exE conjE)
  have n: "map_of (deref world_after_first_call 0) ''file_path'' = None"
    by (simp add: deref_def world_after_first_call_fields delete_conv')
  from f have f': "map_of (deref w2 0) ''file_path'' = Some (PStr (resp_file_path second_response))"
    by simp
  show ?thesis
    by (simp add: first_call world_after_first_call_fields s m f' n)
qed

subsection \<open>C8: failures inside the cache\<close>

lemma get_raises:
  assumes "fst (get_body rt key w) = Inl e"
  shows "fst (CacheService_get rt key w) = None"
    and "snd (CacheService_get rt key w) = count_miss (snd (get_body rt key w))"
  using assms by (cases "get_body rt key w"; simp add: CacheService_get_def)+

lemma get_body_raises_state:
  assumes "fst (get_body rt key w) = Inl e"
  shows "snd (get_body rt key w) = w \<or> snd (get_body rt key w) = count_hit w"
  using assms
  by (auto simp add: get_body_def utcnow_def new_dict_def Let_def
        split: option.splits sum.splits if_splits prod.splits)

lemma synthesize_text_after_failed_get:
  assumes "fst (get_body rt (request_cache_key rt request) w) = Inl e"
  shows "synthesize_text rt st client request user_id w
           = synthesize_text_miss rt st client request (request_cache_key rt request)
               (snd (CacheService_get rt (request_cache_key rt request) w))"
  using get_raises(1) [OF assms]
  by (simp add: synthesize_text_def truthy_cached_def split_beta Let_def)

lemma set_raises:
  assumes "fst (set_body rt st key val expire w) = Inl e"
  shows "fst (CacheService_set rt st key val expire w) = False"
  using assms by (cases "set_body rt st key val expire w") (simp add: CacheService_set_def)

text \<open>
  C8: when the body of \<^verbatim>\<open>get\<close> raises, \<^verbatim>\<open>get\<close> returns \<^verbatim>\<open>None\<close>, the state differs from the
  one before only in the counters, and \<^verbatim>\<open>synthesize_text\<close> continues with the miss branch;
  when the body of \<^verbatim>\<open>set\<close> raises, \<^verbatim>\<open>set\<close> returns \<^verbatim>\<open>False\<close>; and once \<^verbatim>\<open>synthesize_to_file\<close> has
  succeeded, the miss branch returns the response whatever \<^verbatim>\<open>set\<close> did. The witness is a
  cache whose Redis client raises on every call: the synthesis still returns a response.
\<close>

theorem cache_failures_never_fail_synthesis:
  "(fst (get_body rt (request_cache_key rt request) w) = Inl e \<longrightarrow>
      fst (CacheService_get rt (request_cache_key rt request) w) = None
      \<and> (snd (CacheService_get rt (request_cache_key rt request) w) = count_miss w
         \<or> snd (CacheService_get rt (request_cache_key rt request) w) = count_miss (count_hit w))
      \<and> synthesize_text rt st client request user_id w
          = synthesize_text_miss rt st client request (request_cache_key rt request)
              (snd (CacheService_get rt (request_cache_key rt request) w)))
   \<and> (fst (set_body rt st key val expire ws) = Inl e' \<longrightarrow>
        fst (CacheService_set rt st key val expire ws) = False)
   \<and> (synthesize_to_file rt client (req_text request) (req_voice_id request)
         (miss_file_path rt st request wm) (req_speed request) (req_volume request)
         (req_pitch request) (req_format request) (req_emotion request)
         (wm\<lparr>uuid_count := Suc (uuid_count wm)\<rparr>) = Some (Inr result, w2) \<longrightarrow>
        (\<exists>response w'. synthesize_text_miss rt st client request key wm
                          = Some (Inr response, w')))"
proof (intro conjI impI)
  assume a: "fst (get_body rt (request_cache_key rt request) w) = Inl e"
  show "fst (CacheService_get rt (request_cache_key rt request) w) = None"
    by (rule get_raises(1) [OF a])
  show "snd (CacheService_get rt (request_cache_key rt request) w) = count_miss w
        \<or> snd (CacheService_get rt (request_cache_key rt request) w) = count_miss (count_hit w)"
    using get_raises(2) [OF a] get_body_raises_state [OF a] by auto
  show "synthesize_text rt st client request user_id w
          = synthesize_text_miss rt st client request (request_cache_key rt request)
              (snd (CacheService_get rt (request_cache_key rt request) w))"
    by (rule synthesize_text_after_failed_get [OF a])
next
  assume "fst (set_body rt st key val expire ws) = Inl e'"
  then show "fst (CacheService_set rt st key val expire ws) = False"
    by (rule set_raises)
next
  assume "synthesize_to_file rt client (req_text request) (req_voice_id request)
         (miss_file_path rt st request wm) (req_speed request) (req_volume request)
         (req_pitch request) (req_format request) (req_emotion request)
         (wm\<lparr>uuid_count := Suc (uuid_count wm)\<rparr>) = Some (Inr result, w2)"
  then show "\<exists>response w'. synthesize_text_miss rt st client request key wm
                          = Some (Inr response, w')"
    by (rule miss_returns_response)
qed

theorem cache_failures_never_fail_synthesis_witness:
  "fst (get_body serving_runtime (request_cache_key serving_runtime sample_request)
          world_with_failing_redis) = Inl (OtherError ''connection refused'')
   \<and> fst (CacheService_get serving_runtime (request_cache_key serving_runtime sample_request)
            world_with_failing_redis) = None
   \<and> fst (set_body serving_runtime default_settings
            (request_cache_key serving_runtime sample_request) 0 (Some 3600)
            world_with_failing_redis) = Inl (OtherError ''connection refused'')
   \<and> fst (CacheService_set serving_runtime default_settings
            (request_cache_key serving_runtime sample_request) 0 (Some 3600)
            world_with_failing_redis) = False
   \<and> (\<exists>result w2.
         synthesize_to_file serving_runtime sample_client (req_text sample_request)
           (req_voice_id sample_request)
           (miss_file_path serving_runtime default_settings sample_request
              (count_miss world_with_failing_redis))
           (req_speed sample_request) (req_volume sample_request) (req_pitch sample_request)
           (req_format sample_request) (req_emotion sample_request)
           ((count_miss world_with_failing_redis)
              \<lparr>uuid_count := Suc (uuid_count (count_miss world_with_failing_redis))\<rparr>)
           = Some (Inr result, w2))
   \<and> (\<exists>response w'.
         synthesize_text serving_runtime default_settings sample_client sample_request None
           world_with_failing_redis = Some (Inr response, w'))"
proof -
  let ?key = "request_cache_key serving_runtime sample_request"
  let ?w = "world_with_failing_redis"
  let ?e = "OtherError ''connection refused''"
  have a: "fst (get_body serving_runtime ?key ?w) = Inl ?e"
    by (simp add: get_body_def world_with_failing_redis_def failing_redis_def)
  have b: "fst (set_body serving_runtime default_settings ?key 0 (Some 3600) ?w) = Inl ?e"
    by (simp add: set_body_def world_with_failing_redis_def failing_redis_def
          serving_runtime_def sample_runtime_def)
  have g: "snd (get_body serving_runtime ?key ?w) = ?w"
    by (simp add: get_body_def world_with_failing_redis_def failing_redis_def)
  from to_file_clean [OF serving_runtime_stream serving_runtime_write]
  obtain result w2 where
    c: "synthesize_to_file serving_runtime sample_client (req_text sample_request)
           (req_voice_id sample_request)
           (miss_file_path serving_runtime default_settings sample_request (count_miss ?w))
           (req_speed sample_request) (req_volume sample_request) (req_pitch sample_request)
           (req_format sample_request) (req_emotion sample_request)
           ((count_miss ?w)\<lparr>uuid_count := Suc (uuid_count (count_miss ?w))\<rparr>)
           = Some (Inr result, w2)"
    by blast
  note t = cache_failures_never_fail_synthesis
    [of serving_runtime sample_request ?w ?e default_settings sample_client None
        ?key 0 "Some 3600" ?w ?e "count_miss ?w" result w2]
  from t a have get_none: "fst (CacheService_get serving_runtime ?key ?w) = None"
    and cont: "synthesize_text serving_runtime default_settings sample_client sample_request None ?w
                 = synthesize_text_miss serving_runtime default_settings sample_client
                     sample_request ?key (snd (CacheService_get serving_runtime ?key ?w))"
    by blast+
  from t b have set_false:
    "fst (CacheService_set serving_runtime default_settings ?key 0 (Some 3600) ?w) = False"
    by blast
  from t c have miss: "\<exists>response w'.
      synthesize_text_miss serving_runtime default_settings sample_client sample_request ?key
        (count_miss ?w) = Some (Inr response, w')"
    by blast
  have "snd (CacheService_get serving_runtime ?key ?w) = count_miss ?w"
    using get_raises(2) [OF a] g by simp
  with cont miss have e2e: "\<exists>response w'.
      synthesize_text serving_runtime default_settings sample_client sample_request None ?w
        = Some (Inr response, w')"
    by simp
  from a get_none b set_false c e2e show ?thesis
    by (intro conjI exI [of _ result] exI [of _ w2]) 
qed



end
